theory Spec2Isabelle
  imports Main "HOL-Library.Word"
begin

section \<open>Common conventions\<close>

text \<open>
  Go strings and byte slices are both sequences of bytes. A HOL \<^typ>\<open>char\<close> is an
  8-bit byte, so both are modelled as \<^typ>\<open>char list\<close>; the conversions
  \<^verbatim>\<open>[]byte(s)\<close> and \<^verbatim>\<open>string(b)\<close> are the identity.
\<close>

type_synonym bytes = "char list"

text \<open>
  A Go function that returns \<^verbatim>\<open>(value, error)\<close> may also leave the process through
  \<^verbatim>\<open>os.Exit(code)\<close> or panic (here: on a slice expression out of range).
\<close>

datatype ('e, 'a) outcome = Return 'a | Failure 'e | OsExit nat | Panic

subsection \<open>Exit codes\<close>

text \<open>
  Package \<^verbatim>\<open>exitcodes\<close> is not among the sources. Section 6 of the specification
  fixes the numbers: 6 Usage, 12 PasswordIncorrect, 16 DeprecatedFS.
\<close>

text \<open>Modelled from the spec: \<^verbatim>\<open>exitcodes.Usage\<close>, section 6: ``\<^verbatim>\<open>6\<close> Usage''.\<close>

definition Usage :: nat where
  "Usage = 6"

text \<open>
  Modelled from the spec: \<^verbatim>\<open>exitcodes.PasswordIncorrect\<close>, section 6:
  ``\<^verbatim>\<open>12\<close> PasswordIncorrect''.
\<close>

definition PasswordIncorrect :: nat where
  "PasswordIncorrect = 12"

text \<open>
  Modelled from the spec: \<^verbatim>\<open>exitcodes.DeprecatedFS\<close>, section 6:
  ``\<^verbatim>\<open>16\<close> DeprecatedFS''.
\<close>

definition DeprecatedFS :: nat where
  "DeprecatedFS = 16"

section \<open>\<^verbatim>\<open>cli_args.go\<close>: prefixOArgs\<close>

text \<open>
  \<^verbatim>\<open>strings.Split(s, sep)\<close> for a one-byte separator: the pieces between the
  separators, one more piece than there are separators (so the empty string gives one
  empty piece).
\<close>

fun strings_Split :: "string \<Rightarrow> char \<Rightarrow> string list" where
  "strings_Split [] sep = [[]]"
| "strings_Split (c # cs) sep =
     (if c = sep then [] # strings_Split cs sep
      else (case strings_Split cs sep of
              [] \<Rightarrow> [[c]]
            | w # ws \<Rightarrow> (c # w) # ws))"

definition strings_HasPrefix :: "string \<Rightarrow> string \<Rightarrow> bool" where
  "strings_HasPrefix s pre = (take (length pre) s = pre)"

datatype cli_error = ORequiresArgument
  \<comment> \<open>\<^verbatim>\<open>The "-o" option requires an argument\<close>\<close>

text \<open>
  The loop of lines 92 to 106, over the arguments after the program name. The first
  argument is what is left of \<^verbatim>\<open>osArgs[i:]\<close>; \<^verbatim>\<open>otherArgs\<close> and
  \<^verbatim>\<open>oOpts\<close> are the two accumulators. \<^verbatim>\<open>None\<close> is the early error return for
  a trailing \<^verbatim>\<open>-o\<close>.
\<close>

fun extractO :: "string list \<Rightarrow> string list \<Rightarrow> string list \<Rightarrow> (string list \<times> string list) option" where
  "extractO [] otherArgs oOpts = Some (otherArgs, oOpts)"
| "extractO (a # rest) otherArgs oOpts =
     (if a = ''-o'' then
        (case rest of
           [] \<Rightarrow> None
         | v # rest' \<Rightarrow> extractO rest' otherArgs (strings_Split v (CHR '','')))
      else if strings_HasPrefix a ''-o='' then
        extractO rest otherArgs (strings_Split (drop 3 a) (CHR '',''))
      else extractO rest (otherArgs @ [a]) oOpts)"

text \<open>
  The loop of lines 110 to 119: append \<^verbatim>\<open>"-"+o\<close> for every non-empty option,
  leaving through \<^verbatim>\<open>os.Exit(exitcodes.Usage)\<close> at an option \<^verbatim>\<open>o\<close> or \<^verbatim>\<open>-o\<close>.
\<close>

fun addOOpts :: "string list \<Rightarrow> string list \<Rightarrow> (cli_error, string list) outcome" where
  "addOOpts [] newArgs = Return newArgs"
| "addOOpts (opt # opts) newArgs =
     (if opt = '''' then addOOpts opts newArgs
      else if opt = ''o'' \<or> opt = ''-o'' then OsExit Usage
      else addOOpts opts (newArgs @ [''-'' @ opt]))"

definition prefixOArgs :: "string list \<Rightarrow> (cli_error, string list) outcome" where
  "prefixOArgs osArgs =
     (if length osArgs < 3 then Return osArgs
      else if ''--'' \<in> set (drop 1 osArgs) then Return osArgs
      else (case extractO (drop 1 osArgs) [] [] of
              None \<Rightarrow> Failure ORequiresArgument
            | Some (otherArgs, oOpts) \<Rightarrow>
                (case addOOpts oOpts [osArgs ! 0] of
                   Return newArgs \<Rightarrow> Return (newArgs @ otherArgs)
                 | Failure e \<Rightarrow> Failure e
                 | OsExit c \<Rightarrow> OsExit c
                 | Panic \<Rightarrow> Panic)))"

subsection \<open>Command lines as the claim reads them\<close>











section \<open>\<^verbatim>\<open>cli_args.go\<close>: parseCliOptsBase\<close>

text \<open>
  \<^verbatim>\<open>argContainer\<close>, field by field. \<^verbatim>\<open>multipleStrings\<close> is a string list,
  \<^verbatim>\<open>time.Duration\<close> and \<^verbatim>\<open>int\<close> are integers. The helper fields, whose Go names
  start with an underscore, carry the prefix \<^verbatim>\<open>u_\<close>; the listener and the parsed owner
  are only ever nil in this file and are kept as options.
\<close>

record argContainer =
  debug :: bool
  init :: bool
  zerokey :: bool
  fusedebug :: bool
  openssl :: bool
  passwd :: bool
  fg :: bool
  version :: bool
  plaintextnames :: bool
  quiet :: bool
  nosyslog :: bool
  wpanic :: bool
  longnames :: bool
  allow_other :: bool
  reverse :: bool
  aessiv :: bool
  nonempty :: bool
  raw64 :: bool
  noprealloc :: bool
  speed :: bool
  hkdf :: bool
  serialize_reads :: bool
  forcedecode :: bool
  hh :: bool
  info :: bool
  sharedstorage :: bool
  devrandom :: bool
  fsck :: bool
  dev :: bool
  nodev :: bool
  suid :: bool
  nosuid :: bool
  exec :: bool
  noexec :: bool
  rw :: bool
  ro :: bool
  kernel_cache :: bool
  acl :: bool
  masterkey :: string
  mountpoint :: string
  cipherdir :: string
  cpuprofile :: string
  memprofile :: string
  ko :: string
  ctlsock :: string
  fsname :: string
  force_owner :: string
  trace :: string
  fido2 :: string
  extpass :: "string list"
  badname :: "string list"
  passfile :: "string list"
  exclude :: "string list"
  excludeWildcard :: "string list"
  excludeFrom :: "string list"
  config :: string
  notifypid :: int
  scryptn :: int
  idle :: int
  u_configCustom :: bool
  u_ctlsockFd :: "nat option"
  u_forceOwner :: "(nat \<times> nat) option"
  u_explicitScryptn :: bool

definition Empty :: "string list \<Rightarrow> bool" where
  "Empty s = (length s = 0)"

text \<open>
  The value of every flag variable when its flag is not passed: the defaults of the
  registrations in lines 161 to 245. \<^verbatim>\<open>configfile.ScryptDefaultLogN\<close> is not among
  the sources and is a parameter.
\<close>

definition flagDefaults :: "int \<Rightarrow> argContainer" where
  "flagDefaults ScryptDefaultLogN =
     \<lparr> debug = False, init = False, zerokey = False, fusedebug = False, openssl = False,
       passwd = False, fg = False, version = False, plaintextnames = False, quiet = False,
       nosyslog = False, wpanic = False, longnames = True, allow_other = False,
       reverse = False, aessiv = False, nonempty = False, raw64 = True, noprealloc = False,
       speed = False, hkdf = True, serialize_reads = False, forcedecode = False, hh = False,
       info = False, sharedstorage = False, devrandom = False, fsck = False,
       dev = False, nodev = False, suid = False, nosuid = False, exec = False,
       noexec = False, rw = False, ro = False, kernel_cache = False, acl = False,
       masterkey = '''', mountpoint = '''', cipherdir = '''', cpuprofile = '''',
       memprofile = '''', ko = '''', ctlsock = '''', fsname = '''', force_owner = '''',
       trace = '''', fido2 = '''',
       extpass = [], badname = [], passfile = [],
       exclude = [], excludeWildcard = [], excludeFrom = [],
       config = '''', notifypid = 0, scryptn = ScryptDefaultLogN, idle = 0,
       u_configCustom = False, u_ctlsockFd = None, u_forceOwner = None,
       u_explicitScryptn = False \<rparr>"

text \<open>
  What \<^verbatim>\<open>flagSet.Parse\<close> (package \<^verbatim>\<open>flag\<close> of the Go library) leaves behind when
  it succeeds: the flag variables, the local \<^verbatim>\<open>opensslAuto\<close>, and the names of the
  flags that were set, as \<^verbatim>\<open>flagSet.Visit\<close> enumerates them. The parser itself is a
  parameter of \<^verbatim>\<open>parseCliOptsBase\<close>.
\<close>

datatype flag_error = ErrHelp | ErrParse

record parsed_flags =
  parsed_args :: argContainer
  parsed_opensslAuto :: string
  visited :: "string list"

fun isFlagPassed :: "string list \<Rightarrow> string \<Rightarrow> bool" where
  "isFlagPassed [] name = False"
| "isFlagPassed (f # fs) name = (if f = name then True else isFlagPassed fs name)"

text \<open>\<^verbatim>\<open>strconv.ParseBool\<close>: the twelve spellings the Go library accepts.\<close>

definition strconv_ParseBool :: "string \<Rightarrow> bool option" where
  "strconv_ParseBool s =
     (if s \<in> set [''1'', ''t'', ''T'', ''TRUE'', ''true'', ''True''] then Some True
      else if s \<in> set [''0'', ''f'', ''F'', ''FALSE'', ''false'', ''False''] then Some False
      else None)"

text \<open>
  \<^verbatim>\<open>parseCliOptsBase\<close>, from the call of \<^verbatim>\<open>flagSet.Parse\<close> (line 247) on. The
  slice expression \<^verbatim>\<open>os.Args[1:]\<close> panics when \<^verbatim>\<open>os.Args\<close> is empty. Every
  \<^verbatim>\<open>tlog.Fatal.Printf\<close> only logs; the exit is the \<^verbatim>\<open>os.Exit\<close> after it.
  \<^verbatim>\<open>stupidgcm.PreferOpenSSL()\<close> and \<^verbatim>\<open>stupidgcm.BuiltWithoutOpenssl\<close> are not
  among the sources and are parameters.
\<close>

definition parseCliOptsBase ::
  "(string list \<Rightarrow> flag_error + parsed_flags) \<Rightarrow> bool \<Rightarrow> bool \<Rightarrow> string list
     \<Rightarrow> (cli_error, argContainer) outcome" where
  "parseCliOptsBase flagSet_Parse PreferOpenSSL BuiltWithoutOpenssl os_Args =
     (if length os_Args < 1 then Panic
      else case flagSet_Parse (drop 1 os_Args) of
        Inl ErrHelp \<Rightarrow> OsExit 0
      | Inl ErrParse \<Rightarrow> OsExit Usage
      | Inr p \<Rightarrow>
          (let args = parsed_args p;
               opensslAuto = parsed_opensslAuto p;
               args = (if isFlagPassed (visited p) ''scryptn''
                       then args\<lparr>u_explicitScryptn := True\<rparr> else args)
           in case (if opensslAuto = ''auto'' then Some PreferOpenSSL
                    else strconv_ParseBool opensslAuto) of
                None \<Rightarrow> OsExit Usage
              | Some b \<Rightarrow>
                  (let args = args\<lparr>openssl := b\<rparr> in
                   if forcedecode args \<and> BuiltWithoutOpenssl then OsExit Usage
                   else if forcedecode args \<and> aessiv args then OsExit Usage
                   else if forcedecode args \<and> reverse args then OsExit Usage
                   else if forcedecode args \<and> \<not> openssl args \<and> opensslAuto \<noteq> ''auto''
                     then OsExit Usage
                   else
                     (let args = (if forcedecode args
                                  then args\<lparr>openssl := True, ro := True,
                                            allow_other := False, ko := ''noexec''\<rparr>
                                  else args) in
                      if \<not> Empty (extpass args) \<and> length (passfile args) \<noteq> 0
                        then OsExit Usage
                      else if length (passfile args) \<noteq> 0 \<and> masterkey args \<noteq> ''''
                        then OsExit Usage
                      else if \<not> Empty (extpass args) \<and> masterkey args \<noteq> ''''
                        then OsExit Usage
                      else if \<not> Empty (extpass args) \<and> fido2 args \<noteq> ''''
                        then OsExit Usage
                      else if idle args < 0 then OsExit Usage
                      else Return args))))"

text \<open>
  \<^verbatim>\<open>parseCliOpts\<close> and \<^verbatim>\<open>parseCliOptsDiy\<close>: expand \<^verbatim>\<open>-o\<close> first, leave with
  the Usage code when that fails, then parse.
\<close>

definition parseCliOpts ::
  "(string list \<Rightarrow> flag_error + parsed_flags) \<Rightarrow> bool \<Rightarrow> bool \<Rightarrow> string list
     \<Rightarrow> (cli_error, argContainer) outcome" where
  "parseCliOpts flagSet_Parse PreferOpenSSL BuiltWithoutOpenssl os_Args =
     (case prefixOArgs os_Args of
        Failure err \<Rightarrow> OsExit Usage
      | OsExit c \<Rightarrow> OsExit c
      | Panic \<Rightarrow> Panic
      | Return os_Args' \<Rightarrow>
          parseCliOptsBase flagSet_Parse PreferOpenSSL BuiltWithoutOpenssl os_Args')"

text \<open>The password sources of a parsed command line, as the claim counts them.\<close>

definition password_sources :: "argContainer \<Rightarrow> nat" where
  "password_sources args =
     (if extpass args \<noteq> [] then 1 else 0) + (if passfile args \<noteq> [] then 1 else 0) +
     (if masterkey args \<noteq> '''' then 1 else 0) + (if fido2 args \<noteq> '''' then 1 else 0)"

section \<open>internal/nametransform/names.go\<close>

definition NameMax :: nat where
  "NameMax = 255"

definition aes_BlockSize :: nat where
  "aes_BlockSize = 16"

subsection \<open>Padding\<close>

text \<open>
  \<^verbatim>\<open>pad16\<close> and \<^verbatim>\<open>unPad16\<close> (file \<^verbatim>\<open>pad16.go\<close> of the package) are not
  among the sources. Section 4.C of the specification: ``Pad with \<^verbatim>\<open>PKCS#7\<close> to a
  multiple of 16'' and ``\<^verbatim>\<open>PKCS#7\<close> unpad; on any padding error, return a generic
  \<^verbatim>\<open>EBADMSG\<close>''. \<^verbatim>\<open>PKCS#7\<close> padding appends between 1 and 16 bytes, each
  holding the number of bytes appended.
\<close>

text \<open>Modelled from the spec: \<^verbatim>\<open>pad16\<close>, \<^verbatim>\<open>PKCS#7\<close> padding to a multiple of 16.\<close>

definition pad16 :: "bytes \<Rightarrow> bytes" where
  "pad16 orig =
     (let padLen = aes_BlockSize - length orig mod aes_BlockSize
      in orig @ replicate padLen (char_of padLen))"

text \<open>
  Modelled from the spec: the errors of \<^verbatim>\<open>unPad16\<close>. The comment at lines 103 to
  105 of \<^verbatim>\<open>names.go\<close> says that they are detailed and include the position of the
  incorrect byte, so the error values carry those details.
\<close>

datatype pad_error =
    PadEmptyInput
  | PadUnalignedSize nat
  | PadLengthInvalid nat
  | PadByteInvalid nat

text \<open>
  Modelled from the spec: the check that every padding byte holds the padding length;
  the result is the position of the first byte that does not.
\<close>

fun firstBadPadByte :: "char \<Rightarrow> bytes \<Rightarrow> nat \<Rightarrow> nat option" where
  "firstBadPadByte padByte [] i = None"
| "firstBadPadByte padByte (b # bs) i =
     (if b \<noteq> padByte then Some i else firstBadPadByte padByte bs (Suc i))"

text \<open>
  Modelled from the spec: \<^verbatim>\<open>unPad16\<close>, \<^verbatim>\<open>PKCS#7\<close> unpadding of a non-empty
  input whose length is a multiple of 16. The last byte is the padding length, between 1
  and 16; that many bytes at the end must all hold it, and are removed.
\<close>

definition unPad16 :: "bytes \<Rightarrow> pad_error + bytes" where
  "unPad16 padded =
     (let oldLen = length padded in
      if oldLen = 0 then Inl PadEmptyInput
      else if oldLen mod aes_BlockSize \<noteq> 0 then Inl (PadUnalignedSize oldLen)
      else
        (let padByte = last padded;
             padLen = (of_char padByte :: nat) in
         if padLen = 0 \<or> padLen > aes_BlockSize then Inl (PadLengthInvalid padLen)
         else
           (case firstBadPadByte padByte (drop (oldLen - padLen) padded) (oldLen - padLen) of
              Some i \<Rightarrow> Inl (PadByteInvalid i)
            | None \<Rightarrow> Inr (take (oldLen - padLen) padded))))"

subsection \<open>The collaborators of NameTransform\<close>

text \<open>
  The EME cipher (package \<^verbatim>\<open>eme\<close>) and the base64 encoding (package
  \<^verbatim>\<open>encoding/base64\<close> of the Go library) are outside the repository. They are fields
  of \<^verbatim>\<open>NameTransform\<close> in the source and fields of function type here.
  \<^verbatim>\<open>Encrypt\<close> and \<^verbatim>\<open>Decrypt\<close> take the tweak first, then the data.
\<close>

record EMECipher =
  eme_Encrypt :: "bytes \<Rightarrow> bytes \<Rightarrow> bytes"
  eme_Decrypt :: "bytes \<Rightarrow> bytes \<Rightarrow> bytes"

datatype b64_error = CorruptInputError nat

record Encoding =
  EncodeToString :: "bytes \<Rightarrow> string"
  DecodeString :: "string \<Rightarrow> b64_error + bytes"
  EncodedLen :: "nat \<Rightarrow> nat"

record NameTransform =
  emeCipher :: EMECipher
  longNames :: bool
  B64 :: Encoding
  BadnamePatterns :: "string list"

text \<open>
  \<^verbatim>\<open>New\<close>; the two encodings \<^verbatim>\<open>base64.URLEncoding\<close> and
  \<^verbatim>\<open>base64.RawURLEncoding\<close> of the Go library are its first two arguments here.
\<close>

definition New :: "Encoding \<Rightarrow> Encoding \<Rightarrow> EMECipher \<Rightarrow> bool \<Rightarrow> bool \<Rightarrow> NameTransform" where
  "New URLEncoding RawURLEncoding e longNames' raw64' =
     (let b64 = (if raw64' then RawURLEncoding else URLEncoding)
      in \<lparr> emeCipher = e, longNames = longNames', B64 = b64, BadnamePatterns = [] \<rparr>)"

subsection \<open>decryptName, EncryptName, DecryptName\<close>

datatype name_error = EBADMSG | Base64Error b64_error

definition decryptName :: "NameTransform \<Rightarrow> string \<Rightarrow> bytes \<Rightarrow> name_error + string" where
  "decryptName n cipherName iv =
     (case DecodeString (B64 n) cipherName of
        Inl err \<Rightarrow> Inl (Base64Error err)
      | Inr bin \<Rightarrow>
          if length bin = 0 then Inl EBADMSG
          else if length bin mod aes_BlockSize \<noteq> 0 then Inl EBADMSG
          else
            (let bin = eme_Decrypt (emeCipher n) iv bin in
             case unPad16 bin of
               Inl err \<Rightarrow> Inl EBADMSG
             | Inr bin \<Rightarrow>
                 if CHR 0x00 \<in> set bin \<or> CHR ''/'' \<in> set bin then Inl EBADMSG
                 else if bin = ''.'' \<or> bin = ''..'' then Inl EBADMSG
                 else Inr bin))"

definition EncryptName :: "NameTransform \<Rightarrow> string \<Rightarrow> bytes \<Rightarrow> string" where
  "EncryptName n plainName iv =
     (let bin = plainName;
          bin = pad16 bin;
          bin = eme_Encrypt (emeCipher n) iv bin;
          cipherName64 = EncodeToString (B64 n) bin
      in cipherName64)"

definition badNameSuffix :: string where
  "badNameSuffix = '' GOCRYPTFS_BAD_NAME''"

text \<open>
  The inner loop of \<^verbatim>\<open>DecryptName\<close> (lines 71 to 76):
  \<^verbatim>\<open>for charpos := len(cipherName) - 1; charpos >= nameMin; charpos--\<close>. The last
  argument is \<^verbatim>\<open>charpos + 1\<close>, so that the first call, with \<^verbatim>\<open>len(cipherName)\<close>,
  also covers the empty name, where \<^verbatim>\<open>charpos\<close> starts at \<^verbatim>\<open>-1\<close>.
  \<^verbatim>\<open>None\<close> means that the loop ended without a return.
\<close>

fun tryPrefixes :: "NameTransform \<Rightarrow> string \<Rightarrow> bytes \<Rightarrow> nat \<Rightarrow> nat \<Rightarrow> string option" where
  "tryPrefixes n cipherName iv nameMin 0 = None"
| "tryPrefixes n cipherName iv nameMin (Suc charpos) =
     (if charpos \<ge> nameMin then
        (case decryptName n (take charpos cipherName) iv of
           Inr res \<Rightarrow> Some (res @ drop charpos cipherName @ badNameSuffix)
         | Inl err \<Rightarrow> tryPrefixes n cipherName iv nameMin charpos)
      else None)"

text \<open>
  The loop over the patterns (lines 65 to 79). \<^verbatim>\<open>filepath.Match\<close> (Go library) is a
  parameter: \<^verbatim>\<open>Inl\<close> is its error for a malformed pattern, \<^verbatim>\<open>Inr\<close> whether the
  name matches. \<^verbatim>\<open>None\<close> means that no pattern matched.
\<close>

datatype match_error = ErrBadPattern

fun tryPatterns ::
  "(string \<Rightarrow> string \<Rightarrow> match_error + bool) \<Rightarrow> NameTransform \<Rightarrow> string \<Rightarrow> bytes
     \<Rightarrow> string list \<Rightarrow> string option" where
  "tryPatterns filepath_Match n cipherName iv [] = None"
| "tryPatterns filepath_Match n cipherName iv (pattern # patterns) =
     (if filepath_Match pattern cipherName = Inr True then
        (let nameMin = EncodedLen (B64 n) aes_BlockSize in
         case tryPrefixes n cipherName iv nameMin (length cipherName) of
           Some r \<Rightarrow> Some r
         | None \<Rightarrow> Some (cipherName @ badNameSuffix))
      else tryPatterns filepath_Match n cipherName iv patterns)"

definition DecryptName ::
  "(string \<Rightarrow> string \<Rightarrow> match_error + bool) \<Rightarrow> NameTransform \<Rightarrow> string \<Rightarrow> bytes
     \<Rightarrow> name_error + string" where
  "DecryptName filepath_Match n cipherName iv =
     (case decryptName n cipherName iv of
        Inr res \<Rightarrow> Inr res
      | Inl err \<Rightarrow>
          (case tryPatterns filepath_Match n cipherName iv (BadnamePatterns n) of
             Some r \<Rightarrow> Inr r
           | None \<Rightarrow> Inl err))"

subsection \<open>What the claims assume of the collaborators\<close>

text \<open>
  A valid plaintext name: not empty, no NUL byte, no \<^verbatim>\<open>/\<close>, not \<^verbatim>\<open>.\<close> or
  \<^verbatim>\<open>..\<close>, and at most \<^verbatim>\<open>NameMax\<close> bytes long (line 18: ``Like ext4, we allow at
  most 255 bytes for a file name'').
\<close>

definition valid_name :: "string \<Rightarrow> bool" where
  "valid_name name =
     (name \<noteq> [] \<and> CHR 0x00 \<notin> set name \<and> CHR ''/'' \<notin> set name \<and>
      name \<noteq> ''.'' \<and> name \<noteq> ''..'' \<and> length name \<le> NameMax)"

text \<open>
  EME is a length-preserving cipher on 1 to 128 blocks of 16 bytes with a 16-byte tweak,
  and decryption under the same tweak inverts encryption (the glossary of the
  specification: a ``16k-bounded block'', that is 2048 bytes).
\<close>

definition eme_inverts :: "EMECipher \<Rightarrow> bool" where
  "eme_inverts e =
     (\<forall>iv x. length iv = 16 \<and> x \<noteq> [] \<and> length x mod 16 = 0 \<and> length x \<le> 2048 \<longrightarrow>
        eme_Decrypt e iv (eme_Encrypt e iv x) = x \<and> length (eme_Encrypt e iv x) = length x)"

text \<open>Base64 round trip (section 8 of the specification): decoding inverts encoding.\<close>

definition b64_inverts :: "Encoding \<Rightarrow> bool" where
  "b64_inverts enc = (\<forall>x. DecodeString enc (EncodeToString enc x) = Inr x)"

subsection \<open>An instance of the collaborators\<close>

text \<open>
  A small instance, to run the functions on concrete names: a cipher that reverses the
  data (length preserving, its own inverse), an encoding that leaves the bytes as they
  are, and a matcher that knows the pattern \<^verbatim>\<open>*\<close> and literal names.
\<close>

definition exampleEME :: EMECipher where
  "exampleEME = \<lparr> eme_Encrypt = (\<lambda>iv x. rev x), eme_Decrypt = (\<lambda>iv x. rev x) \<rparr>"

definition exampleB64 :: Encoding where
  "exampleB64 = \<lparr> EncodeToString = (\<lambda>x. x), DecodeString = (\<lambda>s. Inr s), EncodedLen = (\<lambda>k. k) \<rparr>"

definition exampleNT :: NameTransform where
  "exampleNT = \<lparr> emeCipher = exampleEME, longNames = True, B64 = exampleB64,
                 BadnamePatterns = [''*.tmp'', ''*''] \<rparr>"

definition exampleMatch :: "string \<Rightarrow> string \<Rightarrow> match_error + bool" where
  "exampleMatch pattern name = Inr (pattern = ''*'' \<or> pattern = name)"

subsection \<open>Classes of corrupt input\<close>

text \<open>
  The classes of corruption that the claims about \<^verbatim>\<open>decryptName\<close> name. The first
  argument of \<^verbatim>\<open>in_class\<close> is the class, the second the base64-decoded input, the
  third the result of unpadding the decrypted input.
\<close>

datatype corruption =
    EmptyInput
  | UnalignedInput
  | BadPadding pad_error
  | ContainsNul
  | ContainsSlash
  | IsDot
  | IsDotDot

fun in_class :: "corruption \<Rightarrow> bytes \<Rightarrow> pad_error + bytes \<Rightarrow> bool" where
  "in_class EmptyInput bin unpadded = (bin = [])"
| "in_class UnalignedInput bin unpadded = (length bin mod 16 \<noteq> 0)"
| "in_class (BadPadding e) bin unpadded = (unpadded = Inl e)"
| "in_class ContainsNul bin unpadded =
     (case unpadded of Inl e \<Rightarrow> False | Inr plain \<Rightarrow> CHR 0x00 \<in> set plain)"
| "in_class ContainsSlash bin unpadded =
     (case unpadded of Inl e \<Rightarrow> False | Inr plain \<Rightarrow> CHR ''/'' \<in> set plain)"
| "in_class IsDot bin unpadded = (unpadded = Inr ''.'')"
| "in_class IsDotDot bin unpadded = (unpadded = Inr ''..'')"

section \<open>Package configfile (the second file in \<^verbatim>\<open>mocks_test.go\<close>)\<close>

subsection \<open>Feature flags\<close>

text \<open>
  \<^verbatim>\<open>feature_flags.go\<close> (the type \<^verbatim>\<open>flagIota\<close>, the table \<^verbatim>\<open>knownFlags\<close>,
  the lists \<^verbatim>\<open>requiredFlagsNormal\<close> and \<^verbatim>\<open>requiredFlagsPlaintextNames\<close>, and the
  methods \<^verbatim>\<open>isFeatureFlagKnown\<close> and \<^verbatim>\<open>IsFeatureFlagSet\<close>) is not among the
  sources. Section 6 of the specification gives the closed set of tokens; section 4.D
  gives the rules: ``Required flags for new filesystems: GCMIV128, HKDF. Required for
  non-plaintextnames: DirIV, EMENames, LongNames, Raw64. Optional: AESSIV, FIDO2,
  PlaintextNames. Any flag outside the known set is a hard failure.'' Section 3:
  \<^verbatim>\<open>FeatureFlags\<close> is a set of string tokens; a flag is set when its token is among
  them.
\<close>

text \<open>
  Modelled from the spec: \<^verbatim>\<open>flagIota\<close>, one constant for each token of section 6.
  The source names nine of them (\<^verbatim>\<open>FlagGCMIV128\<close> and so on, in \<^verbatim>\<open>Create\<close>).
\<close>

datatype flagIota =
    FlagPlaintextNames
  | FlagDirIV
  | FlagEMENames
  | FlagGCMIV128
  | FlagLongNames
  | FlagLongNameMax
  | FlagAESSIV
  | FlagRaw64
  | FlagHKDF
  | FlagFIDO2

text \<open>Modelled from the spec: \<^verbatim>\<open>knownFlags\<close>, the token of each flag (section 6).\<close>

fun knownFlags :: "flagIota \<Rightarrow> string" where
  "knownFlags FlagPlaintextNames = ''PlaintextNames''"
| "knownFlags FlagDirIV = ''DirIV''"
| "knownFlags FlagEMENames = ''EMENames''"
| "knownFlags FlagGCMIV128 = ''GCMIV128''"
| "knownFlags FlagLongNames = ''LongNames''"
| "knownFlags FlagLongNameMax = ''LongNameMax''"
| "knownFlags FlagAESSIV = ''AESSIV''"
| "knownFlags FlagRaw64 = ''Raw64''"
| "knownFlags FlagHKDF = ''HKDF''"
| "knownFlags FlagFIDO2 = ''FIDO2''"

text \<open>Modelled from the spec: the keys of \<^verbatim>\<open>knownFlags\<close>, the closed set of section 6.\<close>

definition allFlags :: "flagIota list" where
  "allFlags = [FlagPlaintextNames, FlagDirIV, FlagEMENames, FlagGCMIV128, FlagLongNames,
               FlagLongNameMax, FlagAESSIV, FlagRaw64, FlagHKDF, FlagFIDO2]"

text \<open>
  Modelled from the spec: \<^verbatim>\<open>requiredFlagsNormal\<close>, section 4.D: the flags required
  for new filesystems and those required for non-plaintextnames.
\<close>

definition requiredFlagsNormal :: "flagIota list" where
  "requiredFlagsNormal =
     [FlagGCMIV128, FlagHKDF, FlagDirIV, FlagEMENames, FlagLongNames, FlagRaw64]"

text \<open>
  Modelled from the spec: \<^verbatim>\<open>requiredFlagsPlaintextNames\<close>, section 4.D: the flags
  required for new filesystems, without those required for non-plaintextnames.
\<close>

definition requiredFlagsPlaintextNames :: "flagIota list" where
  "requiredFlagsPlaintextNames = [FlagGCMIV128, FlagHKDF]"

subsection \<open>The configuration record\<close>

text \<open>
  Modelled from the spec: \<^verbatim>\<open>ScryptKDF\<close> is declared in \<^verbatim>\<open>scrypt.go\<close>, not among
  the sources; its fields are those of section 3 of the specification (\<^verbatim>\<open>N\<close>,
  \<^verbatim>\<open>R\<close> and \<^verbatim>\<open>P\<close> carry the prefix \<^verbatim>\<open>scrypt\<close> here).
\<close>

record ScryptKDF =
  Salt :: bytes
  scryptN :: int
  scryptR :: int
  scryptP :: int
  KeyLen :: int

text \<open>\<^verbatim>\<open>FIDO2Params\<close> and \<^verbatim>\<open>ConfFile\<close>, lines 65 to 94.\<close>

record FIDO2Params =
  CredentialID :: bytes
  HMACSalt :: bytes

record ConfFile =
  Creator :: string
  EncryptedKey :: bytes
  ScryptObject :: ScryptKDF
  Version :: "16 word"
  FeatureFlags :: "string list"
  FIDO2 :: FIDO2Params
  filename :: string

text \<open>The zero value of \<^verbatim>\<open>var cf ConfFile\<close>.\<close>

definition zeroConfFile :: ConfFile where
  "zeroConfFile =
     \<lparr> Creator = '''', EncryptedKey = [],
       ScryptObject = \<lparr> Salt = [], scryptN = 0, scryptR = 0, scryptP = 0, KeyLen = 0 \<rparr>,
       Version = 0, FeatureFlags = [],
       FIDO2 = \<lparr> CredentialID = [], HMACSalt = [] \<rparr>, filename = '''' \<rparr>"

text \<open>
  Modelled from the spec: \<^verbatim>\<open>isFeatureFlagKnown\<close>, whether a token is in the known
  set (sections 4.D and 6).
\<close>

definition isFeatureFlagKnown :: "ConfFile \<Rightarrow> string \<Rightarrow> bool" where
  "isFeatureFlagKnown cf flag = (flag \<in> set (map knownFlags allFlags))"

text \<open>
  Modelled from the spec: \<^verbatim>\<open>IsFeatureFlagSet\<close>, whether the token of a flag is among
  the \<^verbatim>\<open>FeatureFlags\<close> of the configuration (section 3).
\<close>

definition IsFeatureFlagSet :: "ConfFile \<Rightarrow> flagIota \<Rightarrow> bool" where
  "IsFeatureFlagSet cf flagWant = (knownFlags flagWant \<in> set (FeatureFlags cf))"

subsection \<open>The key encrypter\<close>

text \<open>
  Packages \<^verbatim>\<open>cryptocore\<close> and \<^verbatim>\<open>contentenc\<close> are not among the sources. Section
  4.A of the specification gives the constructor inputs of the crypto core (a key, a
  backend selector, the IV length in bits, \<^verbatim>\<open>useHKDF\<close>, \<^verbatim>\<open>forceDecode\<close>), section
  4.B the parameters of the content encryption. The two objects are modelled as the
  records of what they were constructed from; what they compute is left to
  \<^verbatim>\<open>EncryptBlock\<close> and \<^verbatim>\<open>DecryptBlock\<close> below.
\<close>

text \<open>Modelled from the spec: the backend selector of section 4.A.\<close>

datatype AEADTypeEnum = BackendOpenSSL | BackendGoGCM | BackendAESSIV

text \<open>Modelled from the spec: the crypto core, as its constructor inputs (section 4.A).\<close>

record CryptoCore =
  cc_key :: bytes
  cc_backend :: AEADTypeEnum
  IVBitLen :: nat
  cc_useHKDF :: bool
  cc_forceDecode :: bool

text \<open>
  Modelled from the spec: the content encryption, as the arguments of
  \<^verbatim>\<open>contentenc.New\<close> (section 4.B: the crypto core and the plaintext block size).
\<close>

record ContentEnc =
  cryptoCore :: CryptoCore
  plainBS :: nat
  ce_forceDecode :: bool

text \<open>Modelled from the spec: \<^verbatim>\<open>cryptocore.New\<close> (section 4.A).\<close>

definition cryptocore_New :: "bytes \<Rightarrow> AEADTypeEnum \<Rightarrow> nat \<Rightarrow> bool \<Rightarrow> bool \<Rightarrow> CryptoCore" where
  "cryptocore_New key aeadType IVBitLen' useHKDF forceDecode =
     \<lparr> cc_key = key, cc_backend = aeadType, IVBitLen = IVBitLen', cc_useHKDF = useHKDF,
       cc_forceDecode = forceDecode \<rparr>"

text \<open>Modelled from the spec: \<^verbatim>\<open>contentenc.New\<close> (section 4.B).\<close>

definition contentenc_New :: "CryptoCore \<Rightarrow> nat \<Rightarrow> bool \<Rightarrow> ContentEnc" where
  "contentenc_New cc plainBS' forceDecode =
     \<lparr> cryptoCore = cc, plainBS = plainBS', ce_forceDecode = forceDecode \<rparr>"

text \<open>
  Modelled from the spec: \<^verbatim>\<open>contentenc.DefaultIVBits\<close>. Sections 3 and 4.D: the
  nonce length is 128 bits when HKDF is set, 96 bits otherwise.
\<close>

definition DefaultIVBits :: nat where
  "DefaultIVBits = 128"

text \<open>
  Modelled from the spec: \<^verbatim>\<open>cryptocore.KeyLen\<close>. Section 3: the master key is 32
  bytes.
\<close>

definition cryptocore_KeyLen :: nat where
  "cryptocore_KeyLen = 32"

text \<open>\<^verbatim>\<open>getKeyEncrypter\<close>, lines 345 to 355.\<close>

definition getKeyEncrypter :: "bytes \<Rightarrow> bool \<Rightarrow> ContentEnc" where
  "getKeyEncrypter scryptHash useHKDF =
     (let IVLen = (if useHKDF then DefaultIVBits else 96);
          cc = cryptocore_New scryptHash BackendGoGCM IVLen useHKDF False;
          ce = contentenc_New cc 4096 False
      in ce)"

subsection \<open>Collaborators outside the sources\<close>

text \<open>
  The functions that \<^verbatim>\<open>configfile\<close> calls and whose code is not among the sources are
  fields of one record, passed to every function that uses them:
  \<^item> \<^verbatim>\<open>contentenc.CurrentVersion\<close>, the current on-disk format version;
  \<^item> \<^verbatim>\<open>NewScryptKDF(logN)\<close>, which draws a random salt (from the random bytes that
    are its first argument here);
  \<^item> \<^verbatim>\<open>ScryptKDF.DeriveKey(password)\<close>, scrypt;
  \<^item> \<^verbatim>\<open>ContentEnc.EncryptBlock(plaintext, blockNo, fileID)\<close>, which draws a random
    nonce (from the random bytes that are its second argument here), and
    \<^verbatim>\<open>ContentEnc.DecryptBlock(ciphertext, blockNo, fileID)\<close>;
  \<^item> \<^verbatim>\<open>json.MarshalIndent\<close> and \<^verbatim>\<open>json.Unmarshal\<close> on a \<^verbatim>\<open>ConfFile\<close>.
  \<^verbatim>\<open>Wipe\<close> and the loops that zero the derived key change no result and have no
  counterpart here.
\<close>

datatype block_error = AuthFailed | BlockMalformed

datatype json_error = JSONError

record collaborators =
  CurrentVersion :: "16 word"
  NewScryptKDF :: "bytes \<Rightarrow> int \<Rightarrow> ScryptKDF"
  DeriveKey :: "ScryptKDF \<Rightarrow> bytes \<Rightarrow> bytes"
  EncryptBlock :: "ContentEnc \<Rightarrow> bytes \<Rightarrow> bytes \<Rightarrow> nat \<Rightarrow> bytes \<Rightarrow> bytes"
  DecryptBlock :: "ContentEnc \<Rightarrow> bytes \<Rightarrow> nat \<Rightarrow> bytes \<Rightarrow> block_error + bytes"
  MarshalIndent :: "ConfFile \<Rightarrow> json_error + bytes"
  Unmarshal :: "bytes \<Rightarrow> ConfFile \<Rightarrow> json_error + ConfFile"

text \<open>
  The random inputs of one call of \<^verbatim>\<open>Create\<close>: what \<^verbatim>\<open>cryptocore.RandBytes\<close>
  returns, what reading \<^verbatim>\<open>/dev/random\<close> returns (\<^verbatim>\<open>None\<close> when it cannot be
  opened or read), the scrypt salt and the nonce.
\<close>

record randomness =
  RandBytes :: "nat \<Rightarrow> bytes"
  dev_random :: "nat \<Rightarrow> bytes option"
  rnd_salt :: bytes
  rnd_nonce :: bytes

subsection \<open>Errors and the file system\<close>

datatype os_error = EEXIST | ENOENT | EIO

text \<open>
  The errors of the package: \<^verbatim>\<open>exitcodes.NewErr(msg, code)\<close>, the three
  \<^verbatim>\<open>fmt.Errorf\<close> messages of \<^verbatim>\<open>Load\<close>, and the errors passed on from the JSON
  library and the operating system.
\<close>

datatype conf_error =
    ExitErr string nat
  | ConfigFileEmpty
  | UnsupportedOnDiskFormat "16 word"
  | UnsupportedFeatureFlag string
  | JSONErr json_error
  | OSErr os_error

text \<open>
  The file system is a map from paths to contents. The faults are what the operating
  system may answer to the calls of \<^verbatim>\<open>WriteFile\<close> after the file is open: a write
  that fails after some bytes, a failing close, a failing rename. (File modes are not
  modelled; a failing \<^verbatim>\<open>fd.Sync\<close> is only logged by the source.)
\<close>

record filesys =
  files :: "string \<rightharpoonup> bytes"

record io_faults =
  write_fault :: "(os_error \<times> nat) option"
  close_fault :: "os_error option"
  rename_fault :: "os_error option"

definition ioutil_ReadFile :: "filesys \<Rightarrow> string \<Rightarrow> os_error + bytes" where
  "ioutil_ReadFile fs name = (case files fs name of None \<Rightarrow> Inl ENOENT | Some b \<Rightarrow> Inr b)"

text \<open>\<^verbatim>\<open>os.OpenFile(name, O_WRONLY|O_CREATE|O_EXCL, 0400)\<close>.\<close>

definition os_OpenFile_excl :: "filesys \<Rightarrow> string \<Rightarrow> os_error + filesys" where
  "os_OpenFile_excl fs name =
     (case files fs name of
        Some b \<Rightarrow> Inl EEXIST
      | None \<Rightarrow> Inr (fs\<lparr>files := (files fs)(name \<mapsto> [])\<rparr>))"

definition fd_Write :: "io_faults \<Rightarrow> filesys \<Rightarrow> string \<Rightarrow> bytes \<Rightarrow> os_error option \<times> filesys" where
  "fd_Write io fs name b =
     (case write_fault io of
        Some (err, written) \<Rightarrow> (Some err, fs\<lparr>files := (files fs)(name \<mapsto> take written b)\<rparr>)
      | None \<Rightarrow> (None, fs\<lparr>files := (files fs)(name \<mapsto> b)\<rparr>))"

definition os_Rename :: "io_faults \<Rightarrow> filesys \<Rightarrow> string \<Rightarrow> string \<Rightarrow> os_error option \<times> filesys" where
  "os_Rename io fs old new =
     (case rename_fault io of
        Some err \<Rightarrow> (Some err, fs)
      | None \<Rightarrow>
          (case files fs old of
             None \<Rightarrow> (Some ENOENT, fs)
           | Some b \<Rightarrow> (None, fs\<lparr>files := ((files fs)(old := None))(new \<mapsto> b)\<rparr>)))"

subsection \<open>EncryptKey and DecryptMasterKey\<close>

text \<open>
  \<^verbatim>\<open>EncryptKey\<close>, lines 288 to 305. It mutates \<^verbatim>\<open>cf\<close>; here it returns the new
  \<^verbatim>\<open>cf\<close>. The salt and the nonce that the callees draw are its second and third
  argument.
\<close>

definition EncryptKey ::
  "collaborators \<Rightarrow> bytes \<Rightarrow> bytes \<Rightarrow> ConfFile \<Rightarrow> bytes \<Rightarrow> bytes \<Rightarrow> int \<Rightarrow> ConfFile" where
  "EncryptKey X salt nonce cf key password logN =
     (let cf = cf\<lparr>ScryptObject := NewScryptKDF X salt logN\<rparr>;
          scryptHash = DeriveKey X (ScryptObject cf) password;
          useHKDF = IsFeatureFlagSet cf FlagHKDF;
          ce = getKeyEncrypter scryptHash useHKDF
      in cf\<lparr>EncryptedKey := EncryptBlock X ce nonce key 0 []\<rparr>)"

text \<open>\<^verbatim>\<open>DecryptMasterKey\<close>, lines 257 to 282.\<close>

definition DecryptMasterKey :: "collaborators \<Rightarrow> ConfFile \<Rightarrow> bytes \<Rightarrow> conf_error + bytes" where
  "DecryptMasterKey X cf password =
     (let scryptHash = DeriveKey X (ScryptObject cf) password;
          useHKDF = IsFeatureFlagSet cf FlagHKDF;
          ce = getKeyEncrypter scryptHash useHKDF
      in case DecryptBlock X ce (EncryptedKey cf) 0 [] of
           Inl err \<Rightarrow> Inl (ExitErr ''Password incorrect.'' PasswordIncorrect)
         | Inr masterkey' \<Rightarrow> Inr masterkey')"

subsection \<open>WriteFile\<close>

text \<open>
  \<^verbatim>\<open>WriteFile\<close>, lines 310 to 341. The result is the returned error
  (\<^verbatim>\<open>None\<close> for nil) and the file system after the call.
\<close>

definition WriteFile ::
  "collaborators \<Rightarrow> io_faults \<Rightarrow> ConfFile \<Rightarrow> filesys \<Rightarrow> conf_error option \<times> filesys" where
  "WriteFile X io cf fs =
     (let tmp = filename cf @ ''.tmp'' in
      case os_OpenFile_excl fs tmp of
        Inl err \<Rightarrow> (Some (OSErr err), fs)
      | Inr fs1 \<Rightarrow>
          (case MarshalIndent X cf of
             Inl err \<Rightarrow> (Some (JSONErr err), fs1)
           | Inr js \<Rightarrow>
               (let js = js @ [CHR 0x0A] in
                case fd_Write io fs1 tmp js of
                  (Some err, fs2) \<Rightarrow> (Some (OSErr err), fs2)
                | (None, fs2) \<Rightarrow>
                    (case close_fault io of
                       Some err \<Rightarrow> (Some (OSErr err), fs2)
                     | None \<Rightarrow>
                         (case os_Rename io fs2 tmp (filename cf) of
                            (Some err, fs3) \<Rightarrow> (Some (OSErr err), fs3)
                          | (None, fs3) \<Rightarrow> (None, fs3))))))"

subsection \<open>Load and LoadAndDecrypt\<close>

text \<open>The loop of lines 216 to 220: the first flag that is not known, if any.\<close>

fun firstUnknownFlag :: "ConfFile \<Rightarrow> string list \<Rightarrow> string option" where
  "firstUnknownFlag cf [] = None"
| "firstUnknownFlag cf (flag # flags) =
     (if \<not> isFeatureFlagKnown cf flag then Some flag else firstUnknownFlag cf flags)"

text \<open>
  The loop of lines 230 to 235, with \<^verbatim>\<open>deprecatedFs\<close> as the accumulator (the message
  on standard error is not modelled).
\<close>

fun checkRequiredFlags :: "ConfFile \<Rightarrow> flagIota list \<Rightarrow> bool \<Rightarrow> bool" where
  "checkRequiredFlags cf [] deprecatedFs = deprecatedFs"
| "checkRequiredFlags cf (i # is) deprecatedFs =
     (if \<not> IsFeatureFlagSet cf i then checkRequiredFlags cf is True
      else checkRequiredFlags cf is deprecatedFs)"

text \<open>\<^verbatim>\<open>Load\<close>, lines 191 to 253.\<close>

definition Load :: "collaborators \<Rightarrow> filesys \<Rightarrow> string \<Rightarrow> conf_error + ConfFile" where
  "Load X fs filename' =
     (let cf = zeroConfFile\<lparr>filename := filename'\<rparr> in
      case ioutil_ReadFile fs filename' of
        Inl err \<Rightarrow> Inl (OSErr err)
      | Inr js \<Rightarrow>
          if length js = 0 then Inl ConfigFileEmpty
          else
            (case Unmarshal X js cf of
               Inl err \<Rightarrow> Inl (JSONErr err)
             | Inr cf \<Rightarrow>
                 if Version cf \<noteq> CurrentVersion X then Inl (UnsupportedOnDiskFormat (Version cf))
                 else
                   (case firstUnknownFlag cf (FeatureFlags cf) of
                      Some flag \<Rightarrow> Inl (UnsupportedFeatureFlag flag)
                    | None \<Rightarrow>
                        (let requiredFlags =
                               (if IsFeatureFlagSet cf FlagPlaintextNames
                                then requiredFlagsPlaintextNames else requiredFlagsNormal);
                             deprecatedFs = checkRequiredFlags cf requiredFlags False
                         in if deprecatedFs
                            then Inl (ExitErr ''Deprecated filesystem'' DeprecatedFS)
                            else Inr cf))))"

text \<open>
  \<^verbatim>\<open>LoadAndDecrypt\<close>, lines 168 to 188: the key (\<^verbatim>\<open>None\<close> for nil) and the
  configuration.
\<close>

definition LoadAndDecrypt ::
  "collaborators \<Rightarrow> filesys \<Rightarrow> string \<Rightarrow> bytes \<Rightarrow> conf_error + (bytes option \<times> ConfFile)" where
  "LoadAndDecrypt X fs filename' password =
     (case Load X fs filename' of
        Inl err \<Rightarrow> Inl err
      | Inr cf \<Rightarrow>
          if length password = 0 then Inr (None, cf)
          else
            (case DecryptMasterKey X cf password of
               Inl err \<Rightarrow> Inl err
             | Inr key \<Rightarrow> Inr (Some key, cf)))"

subsection \<open>Create\<close>

text \<open>\<^verbatim>\<open>randBytesDevRandom\<close>, lines 97 to 109; \<^verbatim>\<open>None\<close> is the panic.\<close>

definition randBytesDevRandom :: "randomness \<Rightarrow> nat \<Rightarrow> bytes option" where
  "randBytesDevRandom rnd n = dev_random rnd n"

text \<open>
  Lines 116 to 157 of \<^verbatim>\<open>Create\<close>: the configuration that line 159 writes, or
  \<^verbatim>\<open>None\<close> when \<^verbatim>\<open>randBytesDevRandom\<close> panics. Appending to the nil slice
  \<^verbatim>\<open>cf.FeatureFlags\<close> builds the list from the left.
\<close>

definition Create_conf ::
  "collaborators \<Rightarrow> randomness \<Rightarrow> string \<Rightarrow> bytes \<Rightarrow> bool \<Rightarrow> int \<Rightarrow> string \<Rightarrow> bool \<Rightarrow> bool
     \<Rightarrow> bytes \<Rightarrow> bytes \<Rightarrow> ConfFile option" where
  "Create_conf X rnd filename' password plaintextNames logN creator aessiv' devrandom'
       fido2CredentialID fido2HmacSalt =
     (let cf = zeroConfFile\<lparr>filename := filename', Creator := creator,
                            Version := CurrentVersion X\<rparr>;
          cf = cf\<lparr>FeatureFlags := FeatureFlags cf @ [knownFlags FlagGCMIV128]\<rparr>;
          cf = cf\<lparr>FeatureFlags := FeatureFlags cf @ [knownFlags FlagHKDF]\<rparr>;
          cf = (if plaintextNames
                then cf\<lparr>FeatureFlags := FeatureFlags cf @ [knownFlags FlagPlaintextNames]\<rparr>
                else cf\<lparr>FeatureFlags := FeatureFlags cf @
                          [knownFlags FlagDirIV, knownFlags FlagEMENames,
                           knownFlags FlagLongNames, knownFlags FlagRaw64]\<rparr>);
          cf = (if aessiv'
                then cf\<lparr>FeatureFlags := FeatureFlags cf @ [knownFlags FlagAESSIV]\<rparr>
                else cf);
          cf = (if length fido2CredentialID > 0
                then cf\<lparr>FeatureFlags := FeatureFlags cf @ [knownFlags FlagFIDO2],
                        FIDO2 := \<lparr> CredentialID = fido2CredentialID,
                                   HMACSalt = fido2HmacSalt \<rparr>\<rparr>
                else cf)
      in case (if devrandom' then randBytesDevRandom rnd cryptocore_KeyLen
               else Some (RandBytes rnd cryptocore_KeyLen)) of
           None \<Rightarrow> None
         | Some key \<Rightarrow> Some (EncryptKey X (rnd_salt rnd) (rnd_nonce rnd) cf key password logN))"

datatype create_result = Panicked | Returned "conf_error option" filesys

text \<open>\<^verbatim>\<open>Create\<close>, lines 114 to 160.\<close>

definition Create ::
  "collaborators \<Rightarrow> io_faults \<Rightarrow> randomness \<Rightarrow> string \<Rightarrow> bytes \<Rightarrow> bool \<Rightarrow> int \<Rightarrow> string
     \<Rightarrow> bool \<Rightarrow> bool \<Rightarrow> bytes \<Rightarrow> bytes \<Rightarrow> filesys \<Rightarrow> create_result" where
  "Create X io rnd filename' password plaintextNames logN creator aessiv' devrandom'
       fido2CredentialID fido2HmacSalt fs =
     (case Create_conf X rnd filename' password plaintextNames logN creator aessiv' devrandom'
             fido2CredentialID fido2HmacSalt of
        None \<Rightarrow> Panicked
      | Some cf \<Rightarrow> (case WriteFile X io cf fs of (err, fs') \<Rightarrow> Returned err fs'))"

subsection \<open>What the claims assume of the block cipher\<close>


subsection \<open>An instance of the collaborators\<close>

text \<open>
  A small instance, to run the functions on concrete inputs. The key derivation pads or
  cuts the password and the salt to 32 bytes; a block is the nonce (padded or cut to
  the IV length), the key and the plaintext side by side, and opens only under the same key; a configuration is written
  as its feature flags, separated by commas; every file that parses has version 2.
\<close>

fun join_commas :: "string list \<Rightarrow> string" where
  "join_commas [] = []"
| "join_commas [s] = s"
| "join_commas (s # t # ss) = s @ '','' @ join_commas (t # ss)"

definition fit_length :: "nat \<Rightarrow> bytes \<Rightarrow> bytes" where
  "fit_length n xs = take n (xs @ replicate n (CHR 0x00))"

definition exampleX :: collaborators where
  "exampleX =
     \<lparr> CurrentVersion = 2,
       NewScryptKDF = (\<lambda>salt logN.
         \<lparr> Salt = salt, scryptN = 2 ^ nat logN, scryptR = 8, scryptP = 1, KeyLen = 32 \<rparr>),
       DeriveKey = (\<lambda>kdf password. take 32 (password @ Salt kdf @ replicate 32 (CHR 0x00))),
       EncryptBlock = (\<lambda>ce nonce plaintext blockNo fileID.
         fit_length (IVBitLen (cryptoCore ce) div 8) nonce @
         cc_key (cryptoCore ce) @ plaintext),
       DecryptBlock = (\<lambda>ce ciphertext blockNo fileID.
         (let body = drop (IVBitLen (cryptoCore ce) div 8) ciphertext;
              k = cc_key (cryptoCore ce)
          in if length k \<le> length body \<and> take (length k) body = k
             then Inr (drop (length k) body) else Inl AuthFailed)),
       MarshalIndent = (\<lambda>cf. Inr (join_commas (FeatureFlags cf))),
       Unmarshal = (\<lambda>js cf.
         Inr (cf\<lparr>Version := 2,
                 FeatureFlags := strings_Split (filter (\<lambda>c. c \<noteq> CHR 0x0A) js) (CHR '','')\<rparr>)) \<rparr>"

definition exampleRandomness :: randomness where
  "exampleRandomness =
     \<lparr> RandBytes = (\<lambda>n. replicate n (CHR ''k'')),
       dev_random = (\<lambda>n. Some (replicate n (CHR ''r''))),
       rnd_salt = replicate 32 (CHR ''s''),
       rnd_nonce = replicate 16 (CHR ''n'') \<rparr>"

definition noFaults :: io_faults where
  "noFaults = \<lparr> write_fault = None, close_fault = None, rename_fault = None \<rparr>"

section \<open>Block encryption, from the specification\<close>

text \<open>
  \<^verbatim>\<open>EncryptBlock\<close> and \<^verbatim>\<open>DecryptBlock\<close> belong to package \<^verbatim>\<open>contentenc\<close>,
  which is not among the sources, and rest on package \<^verbatim>\<open>cryptocore\<close>, which is
  not either. The specification describes both. Section 4.A, the operations of the crypto
  core: \<^verbatim>\<open>encrypt_block(plaintext, nonce, aad) -> ciphertext\<close>,
  \<^verbatim>\<open>decrypt_block(ciphertext, nonce, aad) -> plaintext | AuthError\<close> and
  \<^verbatim>\<open>rand_bytes(n)\<close>. Section 4.B, per-block encryption: the nonce is a fresh random
  IV of the IV length of the crypto core, stored in the ciphertext itself, and the
  associated data is \<^verbatim>\<open>big_endian_u64(blockNo) || fileID\<close>. Section 6, the layout
  of a block: the IV, then the ciphertext with its tag.
\<close>






subsection \<open>Authentication\<close>


subsection \<open>An instance of the crypto core\<close>



section \<open>Properties of prefixOArgs\<close>










section \<open>Properties of parseCliOptsBase\<close>

lemma parseCliOptsBase_checked_pairs:
  assumes prog: "os_Args \<noteq> []"
    and parse: "flagSet_Parse (drop 1 os_Args) = Inr p"
    and pair: "(extpass (parsed_args p) \<noteq> [] \<and> passfile (parsed_args p) \<noteq> []) \<or>
               (passfile (parsed_args p) \<noteq> [] \<and> masterkey (parsed_args p) \<noteq> '''') \<or>
               (extpass (parsed_args p) \<noteq> [] \<and> masterkey (parsed_args p) \<noteq> '''') \<or>
               (extpass (parsed_args p) \<noteq> [] \<and> fido2 (parsed_args p) \<noteq> '''')"
  shows "parseCliOptsBase flagSet_Parse PreferOpenSSL BuiltWithoutOpenssl os_Args = OsExit Usage"
  using prog parse pair
  by (auto simp: parseCliOptsBase_def Let_def Empty_def split: option.splits)

lemma parseCliOptsBase_unchecked_pairs:
  assumes prog: "os_Args \<noteq> []"
    and parse: "flagSet_Parse (drop 1 os_Args) = Inr p"
    and auto: "parsed_opensslAuto p = ''auto''"
    and plain: "\<not> forcedecode (parsed_args p)" "0 \<le> idle (parsed_args p)"
    and sources: "extpass (parsed_args p) = []"
      "passfile (parsed_args p) = [] \<or> masterkey (parsed_args p) = ''''"
  shows "\<exists>args. parseCliOptsBase flagSet_Parse PreferOpenSSL BuiltWithoutOpenssl os_Args = Return args \<and>
           passfile args = passfile (parsed_args p) \<and> masterkey args = masterkey (parsed_args p) \<and>
           fido2 args = fido2 (parsed_args p)"
  using prog parse plain sources
  by (auto simp: parseCliOptsBase_def auto Let_def Empty_def)

text \<open>
  C8. The command line \<^verbatim>\<open>gocryptfs -passfile pw.txt -fido2 /dev/hidraw0 cipher mnt\<close>
  supplies two password sources, \<^verbatim>\<open>passfile\<close> and \<^verbatim>\<open>fido2\<close>. With the flag
  variables that \<^verbatim>\<open>flagSet.Parse\<close> sets for it, \<^verbatim>\<open>parseCliOptsBase\<close> returns the
  arguments and does not leave with the Usage code: the pair is not among the four that
  lines 296 to 311 check. The same holds for \<^verbatim>\<open>-masterkey\<close> with \<^verbatim>\<open>-fido2\<close>.
\<close>

theorem parseCliOptsBase_passfile_fido2_returns:
  "password_sources ((flagDefaults 16)\<lparr>passfile := [''pw.txt''], fido2 := ''/dev/hidraw0''\<rparr>) = 2 \<and>
   parseCliOptsBase
     (\<lambda>argv. Inr \<lparr>parsed_args = (flagDefaults 16)\<lparr>passfile := [''pw.txt''], fido2 := ''/dev/hidraw0''\<rparr>,
                  parsed_opensslAuto = ''auto'', visited = [''fido2'', ''passfile'']\<rparr>)
     False False
     [''gocryptfs'', ''-passfile'', ''pw.txt'', ''-fido2'', ''/dev/hidraw0'', ''cipher'', ''mnt'']
   = Return ((flagDefaults 16)\<lparr>passfile := [''pw.txt''], fido2 := ''/dev/hidraw0''\<rparr>) \<and>
   password_sources ((flagDefaults 16)\<lparr>masterkey := ''00112233'', fido2 := ''/dev/hidraw0''\<rparr>) = 2 \<and>
   parseCliOptsBase
     (\<lambda>argv. Inr \<lparr>parsed_args = (flagDefaults 16)\<lparr>masterkey := ''00112233'', fido2 := ''/dev/hidraw0''\<rparr>,
                  parsed_opensslAuto = ''auto'', visited = [''fido2'', ''masterkey'']\<rparr>)
     False False
     [''gocryptfs'', ''-masterkey'', ''00112233'', ''-fido2'', ''/dev/hidraw0'', ''cipher'', ''mnt'']
   = Return ((flagDefaults 16)\<lparr>masterkey := ''00112233'', fido2 := ''/dev/hidraw0''\<rparr>)"
  by (simp add: parseCliOptsBase_def password_sources_def flagDefaults_def Empty_def)

section \<open>Properties of the name transformation\<close>

lemma length_pad16:
  "length (pad16 orig) mod 16 = 0 \<and> pad16 orig \<noteq> [] \<and> length (pad16 orig) \<le> length orig + 16"
proof -
  have "(length orig + (16 - length orig mod 16)) mod 16 = 0"
    by presburger
  moreover have "16 - length orig mod 16 > 0" by simp
  ultimately show ?thesis
    by (auto simp: pad16_def aes_BlockSize_def Let_def)
qed

lemma firstBadPadByte_replicate:
  "firstBadPadByte c (replicate k c) i = None"
  by (induction k arbitrary: i) simp_all

lemma unPad16_pad16: "unPad16 (pad16 orig) = Inr orig"
proof -
  define p where "p = 16 - length orig mod 16"
  have p: "1 \<le> p" "p \<le> 16" by (simp_all add: p_def)
  have pad: "pad16 orig = orig @ replicate p (char_of p)"
    by (simp add: pad16_def aes_BlockSize_def p_def Let_def)
  have len: "length (pad16 orig) = length orig + p" by (simp add: pad)
  have m: "(length orig + p) mod 16 = 0" unfolding p_def by presburger
  have lastc: "last (pad16 orig) = char_of p" using p by (simp add: pad)
  have oc: "(of_char (char_of p :: char) :: nat) = p" using p by (simp add: of_char_of)
  show ?thesis
    using p m
    by (simp add: unPad16_def Let_def lastc oc len aes_BlockSize_def)
       (simp add: pad firstBadPadByte_replicate)
qed

lemma decryptName_inverts_EncryptName:
  assumes eme: "eme_inverts (emeCipher n)" and b64: "b64_inverts (B64 n)"
    and name: "valid_name name" and iv: "length iv = 16"
  shows "decryptName n (EncryptName n name iv) iv = Inr name"
proof -
  let ?padded = "pad16 name"
  let ?enc = "eme_Encrypt (emeCipher n) iv ?padded"
  have lp: "length ?padded mod 16 = 0" "?padded \<noteq> []" "length ?padded \<le> length name + 16"
    using length_pad16[of name] by simp_all
  have "length name \<le> 255" using name by (simp add: valid_name_def NameMax_def)
  with lp have small: "length ?padded \<le> 2048" by simp
  have "length iv = 16 \<and> ?padded \<noteq> [] \<and> length ?padded mod 16 = 0 \<and> length ?padded \<le> 2048"
    using lp small iv by simp
  with eme have both: "eme_Decrypt (emeCipher n) iv ?enc = ?padded \<and> length ?enc = length ?padded"
    unfolding eme_inverts_def by (rule_tac mp) (erule allE, erule allE, assumption)
  then have inv: "eme_Decrypt (emeCipher n) iv ?enc = ?padded"
    and len: "length ?enc = length ?padded" by simp_all
  have dec: "DecodeString (B64 n) (EncryptName n name iv) = Inr ?enc"
    using b64 by (simp add: b64_inverts_def EncryptName_def)
  have ne: "?enc \<noteq> []" "length ?enc mod aes_BlockSize = 0"
    using lp len by (auto simp: aes_BlockSize_def)
  show ?thesis
    using name
    by (simp add: decryptName_def dec ne inv unPad16_pad16 valid_name_def)
qed

text \<open>
  C2. For every valid plaintext name and every 16-byte IV, decrypting the encrypted name
  with the same IV returns the name, with no error. The cipher and the encoding are the
  collaborators of \<^verbatim>\<open>NameTransform\<close>: the cipher inverts itself on the block
  sizes it accepts and the base64 decoder inverts the encoder.
\<close>

theorem DecryptName_EncryptName:
  assumes "eme_inverts (emeCipher n)" and "b64_inverts (B64 n)"
    and "valid_name name" and "length iv = 16"
  shows "DecryptName filepath_Match n (EncryptName n name iv) iv = Inr name"
  using decryptName_inverts_EncryptName[OF assms] by (simp add: DecryptName_def)

theorem DecryptName_EncryptName_witness:
  "eme_inverts (emeCipher exampleNT) \<and> b64_inverts (B64 exampleNT) \<and>
   valid_name ''file.txt'' \<and> length (replicate 16 (CHR 0x00)) = 16 \<and>
   DecryptName exampleMatch exampleNT
     (EncryptName exampleNT ''file.txt'' (replicate 16 (CHR 0x00)))
     (replicate 16 (CHR 0x00)) = Inr ''file.txt''"
proof -
  have e: "eme_inverts (emeCipher exampleNT)"
    by (simp add: eme_inverts_def exampleNT_def exampleEME_def)
  have b: "b64_inverts (B64 exampleNT)"
    by (simp add: b64_inverts_def exampleNT_def exampleB64_def)
  have v: "valid_name ''file.txt''" by (simp add: valid_name_def NameMax_def)
  have l: "length (replicate 16 (CHR 0x00)) = 16" by simp
  show ?thesis
    using e b v l
      DecryptName_EncryptName [OF e b v l, of exampleMatch]
    by simp
qed

text \<open>
  C5. Once the base64 decoding has succeeded, \<^verbatim>\<open>decryptName\<close> returns the one
  error value \<^verbatim>\<open>EBADMSG\<close> for every class of corrupt input: an empty or unaligned
  decoded input, bad padding (whatever detail and position \<^verbatim>\<open>unPad16\<close> reports), a
  NUL byte or \<^verbatim>\<open>/\<close> in the decrypted name, and the names \<^verbatim>\<open>.\<close> and
  \<^verbatim>\<open>..\<close>; and it returns no other error. \<^verbatim>\<open>EBADMSG\<close> carries no argument, so
  the error tells neither the class nor a position.
\<close>

theorem decryptName_one_error:
  assumes dec: "DecodeString (B64 n) cipherName = Inr bin"
  shows "(in_class k bin (unPad16 (eme_Decrypt (emeCipher n) iv bin)) \<longrightarrow>
            decryptName n cipherName iv = Inl EBADMSG) \<and>
         (\<forall>e. decryptName n cipherName iv = Inl e \<longrightarrow> e = EBADMSG)"
proof
  show "in_class k bin (unPad16 (eme_Decrypt (emeCipher n) iv bin)) \<longrightarrow>
            decryptName n cipherName iv = Inl EBADMSG"
    by (cases k) (auto simp: decryptName_def dec aes_BlockSize_def Let_def split: sum.splits)
  show "\<forall>e. decryptName n cipherName iv = Inl e \<longrightarrow> e = EBADMSG"
    by (auto simp: decryptName_def dec Let_def split: sum.splits if_splits)
qed

theorem decryptName_one_error_witness:
  "DecodeString (B64 exampleNT) (CHR 0x02 # CHR ''b'' # replicate 14 (CHR ''a'')) =
     Inr (CHR 0x02 # CHR ''b'' # replicate 14 (CHR ''a'')) \<and>
   in_class (BadPadding (PadByteInvalid 14)) (CHR 0x02 # CHR ''b'' # replicate 14 (CHR ''a''))
     (unPad16 (eme_Decrypt (emeCipher exampleNT) [] (CHR 0x02 # CHR ''b'' # replicate 14 (CHR ''a'')))) \<and>
   decryptName exampleNT (CHR 0x02 # CHR ''b'' # replicate 14 (CHR ''a'')) [] = Inl EBADMSG \<and>
   in_class IsDot (replicate 15 (CHR 0x0F) @ ''.'')
     (unPad16 (eme_Decrypt (emeCipher exampleNT) [] (replicate 15 (CHR 0x0F) @ ''.''))) \<and>
   decryptName exampleNT (replicate 15 (CHR 0x0F) @ ''.'') [] = Inl EBADMSG"
proof -
  let ?c1 = "CHR 0x02 # CHR ''b'' # replicate 14 (CHR ''a'')"
  let ?c2 = "replicate 15 (CHR 0x0F) @ ''.''"
  have d1: "DecodeString (B64 exampleNT) ?c1 = Inr ?c1"
    by (simp add: exampleNT_def exampleB64_def)
  have d2: "DecodeString (B64 exampleNT) ?c2 = Inr ?c2"
    by (simp add: exampleNT_def exampleB64_def)
  have k1: "\<And>iv. in_class (BadPadding (PadByteInvalid 14)) ?c1
              (unPad16 (eme_Decrypt (emeCipher exampleNT) iv ?c1))"
    by (simp add: exampleNT_def exampleEME_def unPad16_def aes_BlockSize_def Let_def
        numeral_eq_Suc)
  have k2: "in_class IsDot ?c2 (unPad16 (eme_Decrypt (emeCipher exampleNT) [] ?c2))"
    by (simp add: exampleNT_def exampleEME_def unPad16_def aes_BlockSize_def Let_def
        numeral_eq_Suc)
  show ?thesis
    using d1 k1 k2
      decryptName_one_error [OF d1, of "BadPadding (PadByteInvalid 14)" "[]"]
      decryptName_one_error [OF d2, of IsDot "[]"]
    by simp
qed

lemma decryptName_unaligned:
  "DecodeString (B64 n) s = Inr bin \<Longrightarrow> length bin mod 16 \<noteq> 0 \<Longrightarrow>
   decryptName n s iv = Inl EBADMSG"
  by (simp add: decryptName_def aes_BlockSize_def)

lemma tryPrefixes_none:
  "(\<forall>charpos. nameMin \<le> charpos \<and> charpos < m \<longrightarrow>
      (\<exists>e. decryptName n (take charpos cipherName) iv = Inl e)) \<Longrightarrow>
   tryPrefixes n cipherName iv nameMin m = None"
proof (induction m)
  case 0
  then show ?case by simp
next
  case (Suc m)
  show ?case
  proof (cases "nameMin \<le> m")
    case True
    with Suc.prems obtain e where "decryptName n (take m cipherName) iv = Inl e"
      by (metis lessI)
    moreover have "tryPrefixes n cipherName iv nameMin m = None"
      using Suc.prems by (intro Suc.IH) (metis less_Suc_eq)
    ultimately show ?thesis using True by simp
  next
    case False
    then show ?thesis by simp
  qed
qed

lemma tryPrefixes_longest:
  assumes "nameMin \<le> charpos" and "charpos < m"
    and "decryptName n (take charpos cipherName) iv = Inr res"
    and "\<forall>k. charpos < k \<and> k < m \<longrightarrow> (\<exists>e. decryptName n (take k cipherName) iv = Inl e)"
  shows "tryPrefixes n cipherName iv nameMin m = Some (res @ drop charpos cipherName @ badNameSuffix)"
  using assms
proof (induction m)
  case 0
  then show ?case by simp
next
  case (Suc m)
  show ?case
  proof (cases "charpos = m")
    case True
    with Suc.prems show ?thesis by simp
  next
    case False
    with Suc.prems have lt: "charpos < m" by simp
    with Suc.prems obtain e where e: "decryptName n (take m cipherName) iv = Inl e"
      by (metis lessI)
    have "tryPrefixes n cipherName iv nameMin m =
            Some (res @ drop charpos cipherName @ badNameSuffix)"
      using Suc.prems lt by (intro Suc.IH) (simp_all add: less_Suc_eq)
    with e lt Suc.prems(1) show ?thesis by simp
  qed
qed

lemma tryPatterns_matching:
  "\<exists>pattern \<in> set patterns. filepath_Match pattern cipherName = Inr True \<Longrightarrow>
   tryPatterns filepath_Match n cipherName iv patterns =
     Some (case tryPrefixes n cipherName iv (EncodedLen (B64 n) aes_BlockSize) (length cipherName) of
             Some r \<Rightarrow> r
           | None \<Rightarrow> cipherName @ badNameSuffix)"
proof (induction patterns)
  case Nil
  then show ?case by simp
next
  case (Cons p patterns)
  show ?case
  proof (cases "filepath_Match p cipherName = Inr True")
    case True
    then show ?thesis by (simp add: Let_def split: option.splits)
  next
    case False
    with Cons.prems have "\<exists>pattern \<in> set patterns. filepath_Match pattern cipherName = Inr True"
      by auto
    from Cons.IH[OF this] False show ?thesis by simp
  qed
qed

text \<open>
  C6. When the decryption of a ciphertext name fails and the name matches one of the
  \<^verbatim>\<open>BadnamePatterns\<close>, \<^verbatim>\<open>DecryptName\<close> tries the prefixes of the name from
  the longest proper prefix down to \<^verbatim>\<open>B64.EncodedLen(16)\<close> characters. If the
  longest prefix that decrypts has \<^verbatim>\<open>charpos\<close> characters, the result is its
  decryption, then the rest of the name, then \<^verbatim>\<open> GOCRYPTFS_BAD_NAME\<close>; if no prefix
  in that range decrypts, the result is the whole ciphertext name followed by
  \<^verbatim>\<open> GOCRYPTFS_BAD_NAME\<close>. Neither case is an error.
\<close>

theorem DecryptName_badname:
  assumes fails: "decryptName n cipherName iv = Inl err"
    and matches: "\<exists>pattern \<in> set (BadnamePatterns n). filepath_Match pattern cipherName = Inr True"
  shows "(\<forall>charpos res.
            EncodedLen (B64 n) aes_BlockSize \<le> charpos \<and> charpos < length cipherName \<and>
            decryptName n (take charpos cipherName) iv = Inr res \<and>
            (\<forall>k. charpos < k \<and> k < length cipherName \<longrightarrow>
                 (\<exists>e. decryptName n (take k cipherName) iv = Inl e)) \<longrightarrow>
            DecryptName filepath_Match n cipherName iv =
              Inr (res @ drop charpos cipherName @ '' GOCRYPTFS_BAD_NAME'')) \<and>
         ((\<forall>charpos. EncodedLen (B64 n) aes_BlockSize \<le> charpos \<and> charpos < length cipherName \<longrightarrow>
                 (\<exists>e. decryptName n (take charpos cipherName) iv = Inl e)) \<longrightarrow>
            DecryptName filepath_Match n cipherName iv =
              Inr (cipherName @ '' GOCRYPTFS_BAD_NAME''))"
proof (intro conjI allI impI)
  fix charpos res
  assume a: "EncodedLen (B64 n) aes_BlockSize \<le> charpos \<and> charpos < length cipherName \<and>
            decryptName n (take charpos cipherName) iv = Inr res \<and>
            (\<forall>k. charpos < k \<and> k < length cipherName \<longrightarrow>
                 (\<exists>e. decryptName n (take k cipherName) iv = Inl e))"
  then have "tryPrefixes n cipherName iv (EncodedLen (B64 n) aes_BlockSize) (length cipherName) =
               Some (res @ drop charpos cipherName @ badNameSuffix)"
    by (intro tryPrefixes_longest) simp_all
  then show "DecryptName filepath_Match n cipherName iv =
              Inr (res @ drop charpos cipherName @ '' GOCRYPTFS_BAD_NAME'')"
    using tryPatterns_matching[of "BadnamePatterns n" filepath_Match cipherName n iv, OF matches]
    by (simp add: DecryptName_def fails badNameSuffix_def)
next
  assume a: "\<forall>charpos. EncodedLen (B64 n) aes_BlockSize \<le> charpos \<and> charpos < length cipherName \<longrightarrow>
                 (\<exists>e. decryptName n (take charpos cipherName) iv = Inl e)"
  then have "tryPrefixes n cipherName iv (EncodedLen (B64 n) aes_BlockSize) (length cipherName) = None"
    by (intro tryPrefixes_none) simp
  then show "DecryptName filepath_Match n cipherName iv = Inr (cipherName @ '' GOCRYPTFS_BAD_NAME'')"
    using tryPatterns_matching[of "BadnamePatterns n" filepath_Match cipherName n iv, OF matches]
    by (simp add: DecryptName_def fails badNameSuffix_def)
qed

theorem DecryptName_badname_witness:
  "decryptName exampleNT (replicate 8 (CHR 0x08) @ ''txt.elifxyz'') [] = Inl EBADMSG \<and>
   (\<exists>pattern \<in> set (BadnamePatterns exampleNT).
      exampleMatch pattern (replicate 8 (CHR 0x08) @ ''txt.elifxyz'') = Inr True) \<and>
   DecryptName exampleMatch exampleNT (replicate 8 (CHR 0x08) @ ''txt.elifxyz'') [] =
     Inr ''file.txtxyz GOCRYPTFS_BAD_NAME'' \<and>
   decryptName exampleNT (replicate 17 (CHR ''a'')) [] = Inl EBADMSG \<and>
   DecryptName exampleMatch exampleNT (replicate 17 (CHR ''a'')) [] =
     Inr (replicate 17 (CHR ''a'') @ '' GOCRYPTFS_BAD_NAME'')"
proof -
  let ?c = "replicate 8 (CHR 0x08) @ ''txt.elifxyz''"
  let ?d = "replicate 17 (CHR ''a'')"
  have dec: "\<And>s. DecodeString (B64 exampleNT) s = Inr s"
    by (simp add: exampleNT_def exampleB64_def)
  have min: "EncodedLen (B64 exampleNT) aes_BlockSize = 16"
    by (simp add: exampleNT_def exampleB64_def aes_BlockSize_def)
  have fails_c: "decryptName exampleNT ?c [] = Inl EBADMSG"
    by (rule decryptName_unaligned[OF dec]) simp
  have fails_d: "decryptName exampleNT ?d [] = Inl EBADMSG"
    by (rule decryptName_unaligned[OF dec]) simp
  have match_c: "\<exists>pattern \<in> set (BadnamePatterns exampleNT). exampleMatch pattern ?c = Inr True"
    by (simp add: exampleNT_def exampleMatch_def)
  have match_d: "\<exists>pattern \<in> set (BadnamePatterns exampleNT). exampleMatch pattern ?d = Inr True"
    by (simp add: exampleNT_def exampleMatch_def)
  have prefix16: "decryptName exampleNT (take 16 ?c) [] = Inr ''file.txt''"
    by (simp add: decryptName_def exampleNT_def exampleB64_def exampleEME_def unPad16_def
        aes_BlockSize_def Let_def numeral_eq_Suc)
  have longer: "\<forall>k. 16 < k \<and> k < length ?c \<longrightarrow> (\<exists>e. decryptName exampleNT (take k ?c) [] = Inl e)"
  proof (intro allI impI)
    fix k assume k: "16 < k \<and> k < length ?c"
    then have "k = 17 \<or> k = 18" by auto
    then have "length (take k ?c) mod 16 \<noteq> 0" by auto
    from decryptName_unaligned[OF dec this] show "\<exists>e. decryptName exampleNT (take k ?c) [] = Inl e"
      by blast
  qed
  have none_d: "\<forall>charpos. EncodedLen (B64 exampleNT) aes_BlockSize \<le> charpos \<and> charpos < length ?d \<longrightarrow>
                  (\<exists>e. decryptName exampleNT (take charpos ?d) [] = Inl e)"
  proof (intro allI impI)
    fix charpos
    assume "EncodedLen (B64 exampleNT) aes_BlockSize \<le> charpos \<and> charpos < length ?d"
    then have "charpos = 16" by (simp add: min)
    then show "\<exists>e. decryptName exampleNT (take charpos ?d) [] = Inl e"
      by (simp add: decryptName_def exampleNT_def exampleB64_def exampleEME_def unPad16_def
          aes_BlockSize_def Let_def numeral_eq_Suc)
  qed
  have pre: "EncodedLen (B64 exampleNT) aes_BlockSize \<le> 16 \<and> 16 < length ?c \<and>
             decryptName exampleNT (take 16 ?c) [] = Inr ''file.txt'' \<and>
             (\<forall>k. 16 < k \<and> k < length ?c \<longrightarrow> (\<exists>e. decryptName exampleNT (take k ?c) [] = Inl e))"
  proof (intro conjI)
    show "EncodedLen (B64 exampleNT) aes_BlockSize \<le> 16" by (simp add: min)
    show "16 < length ?c" by simp
    show "decryptName exampleNT (take 16 ?c) [] = Inr ''file.txt''" by (rule prefix16)
    show "\<forall>k. 16 < k \<and> k < length ?c \<longrightarrow> (\<exists>e. decryptName exampleNT (take k ?c) [] = Inl e)"
      by (rule longer)
  qed
  have r1: "DecryptName exampleMatch exampleNT ?c [] =
              Inr (''file.txt'' @ drop 16 ?c @ '' GOCRYPTFS_BAD_NAME'')"
    by (rule DecryptName_badname
          [where filepath_Match = exampleMatch, OF fails_c match_c,
           THEN conjunct1, rule_format, of 16 "''file.txt''", OF pre])
  have r2: "DecryptName exampleMatch exampleNT ?d [] = Inr (?d @ '' GOCRYPTFS_BAD_NAME'')"
    by (rule DecryptName_badname
          [where filepath_Match = exampleMatch, OF fails_d match_d,
           THEN conjunct2, rule_format, OF none_d [rule_format]])
  from fails_c match_c r1 fails_d r2 show ?thesis by simp
qed

section \<open>Properties of the configuration file\<close>

subsection \<open>Auxiliary facts\<close>

lemma EncryptKey_FeatureFlags:
  "FeatureFlags (EncryptKey X salt nonce cf key password logN) = FeatureFlags cf"
  by (simp add: EncryptKey_def Let_def)

lemma Create_conf_FeatureFlags:
  "Create_conf X rnd fname password plaintextNames logN creator av dv cred hsalt = Some cf \<Longrightarrow>
   FeatureFlags cf =
     [''GCMIV128'', ''HKDF''] @
     (if plaintextNames then [''PlaintextNames''] else [''DirIV'', ''EMENames'', ''LongNames'', ''Raw64'']) @
     (if av then [''AESSIV''] else []) @ (if length cred > 0 then [''FIDO2''] else [])"
  by (auto simp: Create_conf_def Let_def EncryptKey_FeatureFlags zeroConfFile_def
      split: option.splits if_splits)

lemma WriteFile_success:
  "WriteFile X io cf fs = (None, fs') \<Longrightarrow>
   \<exists>js. MarshalIndent X cf = Inr js \<and> files fs' (filename cf) = Some (js @ [CHR 0x0A])"
  by (auto simp: WriteFile_def os_OpenFile_excl_def fd_Write_def os_Rename_def Let_def
      split: option.splits sum.splits prod.splits if_splits)

text \<open>
  Whenever \<^verbatim>\<open>WriteFile\<close> returns an error, the file under the configuration's own
  name is as it was: only the temporary file may have been created or written.
\<close>

lemma WriteFile_error_keeps_original:
  assumes "WriteFile X io cf fs = (Some err, fs')"
  shows "files fs' (filename cf) = files fs (filename cf)"
proof -
  have ne: "filename cf @ ''.tmp'' \<noteq> filename cf" by simp
  from assms show ?thesis
    using ne
    by (auto simp: WriteFile_def os_OpenFile_excl_def fd_Write_def os_Rename_def Let_def
        split: option.splits sum.splits prod.splits if_splits)
qed

lemma example_Create_returns:
  "\<exists>fs'. Create exampleX noFaults exampleRandomness ''gocryptfs.conf'' ''test'' False 10
          ''gocryptfs example'' False False [] [] \<lparr>files = Map.empty\<rparr> = Returned None fs'"
  by (simp add: Create_def Create_conf_def WriteFile_def os_OpenFile_excl_def fd_Write_def
      os_Rename_def exampleX_def noFaults_def exampleRandomness_def EncryptKey_def
      zeroConfFile_def Let_def)





lemma firstUnknownFlag_Some:
  "\<exists>f \<in> set flags. \<not> isFeatureFlagKnown cf f \<Longrightarrow>
   \<exists>f \<in> set flags. \<not> isFeatureFlagKnown cf f \<and> firstUnknownFlag cf flags = Some f"
  by (induction flags) auto

lemma firstUnknownFlag_None:
  "\<forall>f \<in> set flags. isFeatureFlagKnown cf f \<Longrightarrow> firstUnknownFlag cf flags = None"
  by (induction flags) auto

lemma checkRequiredFlags_iff:
  "checkRequiredFlags cf req d \<longleftrightarrow> d \<or> (\<exists>i \<in> set req. \<not> IsFeatureFlagSet cf i)"
  by (induction req arbitrary: d) auto

lemma derived_key_collision:
  assumes "\<forall>pw. length (f pw) = (32::nat)"
  shows "\<exists>P P'. P \<noteq> P' \<and> (f P :: char list) = f (P' :: char list)"
proof (rule ccontr)
  assume "\<not> (\<exists>P P'. P \<noteq> P' \<and> f P = f P')"
  then have "inj f" by (auto simp: inj_def)
  have "range f \<subseteq> {xs. set xs \<subseteq> (UNIV :: char set) \<and> length xs = 32}"
    using assms by auto
  moreover have "finite {xs. set xs \<subseteq> (UNIV :: char set) \<and> length xs = 32}"
    by (rule finite_lists_length_eq) simp
  ultimately have "finite (range f)" by (rule finite_subset)
  from finite_imageD[OF this \<open>inj f\<close>] have "finite (UNIV :: char list set)" .
  then show False by (simp add: infinite_UNIV_listI)
qed

lemma EncryptKey_ScryptObject:
  "ScryptObject (EncryptKey X salt nonce cf key password logN) = NewScryptKDF X salt logN"
  by (simp add: EncryptKey_def Let_def)

lemma DecryptMasterKey_same_derived_key:
  "DeriveKey X (ScryptObject cf) P = DeriveKey X (ScryptObject cf) P' \<Longrightarrow>
   DecryptMasterKey X cf P = DecryptMasterKey X cf P'"
  by (simp add: DecryptMasterKey_def Let_def)













text \<open>
  Whatever the key derivation and the block cipher are, if derived keys have 32 bytes then
  \<^verbatim>\<open>DecryptMasterKey\<close> cannot both return the key for the password of
  \<^verbatim>\<open>EncryptKey\<close> and reject every other password. There are more passwords than
  keys, so two passwords derive the same key, and \<^verbatim>\<open>DecryptMasterKey\<close> reads the
  password through the derived key only.
\<close>

lemma no_key_derivation_rejects_every_wrong_password:
  "\<not> (\<exists>X. (\<forall>salt logN pw. 10 \<le> logN \<and> logN \<le> 28 \<longrightarrow>
              length (DeriveKey X (NewScryptKDF X salt logN) pw) = 32) \<and>
           (\<forall>salt nonce cf K P logN. length K = 32 \<and> 10 \<le> logN \<and> logN \<le> 28 \<longrightarrow>
              DecryptMasterKey X (EncryptKey X salt nonce cf K P logN) P = Inr K \<and>
              (\<forall>P'. P' \<noteq> P \<longrightarrow>
                 DecryptMasterKey X (EncryptKey X salt nonce cf K P logN) P' =
                   Inl (ExitErr ''Password incorrect.'' 12))))"
proof
  assume "\<exists>X. (\<forall>salt logN pw. 10 \<le> logN \<and> logN \<le> 28 \<longrightarrow>
              length (DeriveKey X (NewScryptKDF X salt logN) pw) = 32) \<and>
           (\<forall>salt nonce cf K P logN. length K = 32 \<and> 10 \<le> logN \<and> logN \<le> 28 \<longrightarrow>
              DecryptMasterKey X (EncryptKey X salt nonce cf K P logN) P = Inr K \<and>
              (\<forall>P'. P' \<noteq> P \<longrightarrow>
                 DecryptMasterKey X (EncryptKey X salt nonce cf K P logN) P' =
                   Inl (ExitErr ''Password incorrect.'' 12)))"
  then obtain X where len: "\<forall>salt logN pw. 10 \<le> logN \<and> logN \<le> 28 \<longrightarrow>
              length (DeriveKey X (NewScryptKDF X salt logN) pw) = 32"
    and both: "\<forall>salt nonce cf K P logN. length K = 32 \<and> 10 \<le> logN \<and> logN \<le> 28 \<longrightarrow>
              DecryptMasterKey X (EncryptKey X salt nonce cf K P logN) P = Inr K \<and>
              (\<forall>P'. P' \<noteq> P \<longrightarrow>
                 DecryptMasterKey X (EncryptKey X salt nonce cf K P logN) P' =
                   Inl (ExitErr ''Password incorrect.'' 12))"
    by blast
  define kdf where "kdf = NewScryptKDF X [] 10"
  define K where "K = replicate 32 (CHR 0x00)"
  from len have "\<forall>pw. length (DeriveKey X kdf pw) = 32" by (simp add: kdf_def)
  from derived_key_collision[OF this] obtain P P' where
    ne: "P' \<noteq> P" and same: "DeriveKey X kdf P = DeriveKey X kdf P'" by metis
  define cf where "cf = EncryptKey X [] [] zeroConfFile K P 10"
  have so: "ScryptObject cf = kdf"
    by (simp add: cf_def kdf_def EncryptKey_ScryptObject)
  have "length K = 32 \<and> (10::int) \<le> 10 \<and> (10::int) \<le> 28" by (simp add: K_def)
  from both [rule_format, OF this, of "[]" "[]" zeroConfFile P]
  have ok: "DecryptMasterKey X cf P = Inr K"
    and rej: "\<forall>P'. P' \<noteq> P \<longrightarrow> DecryptMasterKey X cf P' = Inl (ExitErr ''Password incorrect.'' 12)"
    unfolding cf_def by blast+
  from rej ne have bad: "DecryptMasterKey X cf P' = Inl (ExitErr ''Password incorrect.'' 12)"
    by blast
  from same so have "DecryptMasterKey X cf P = DecryptMasterKey X cf P'"
    by (intro DecryptMasterKey_same_derived_key) simp
  with ok bad show False by simp
qed

subsection \<open>Key wrapping\<close>







subsection \<open>Load\<close>

text \<open>
  C3, as amended. \<^verbatim>\<open>Load\<close> rejects an empty file; a file that parses is rejected
  for a version other than the current one; with the current version, for a feature flag
  outside the known set, naming such a flag; and with only known flags, for a missing
  required flag, with the DeprecatedFS error and exit code 16. Which flags are required
  depends on PlaintextNames: a configuration that passes the earlier checks, lacks
  EMENames and does not carry PlaintextNames fails with exit code 16.
\<close>

theorem Load_rejects:
  assumes read: "files fs fname = Some js"
  shows "(js = [] \<longrightarrow> Load X fs fname = Inl ConfigFileEmpty) \<and>
         (js \<noteq> [] \<and> Unmarshal X js (zeroConfFile\<lparr>filename := fname\<rparr>) = Inr cf \<longrightarrow>
            (Version cf \<noteq> CurrentVersion X \<longrightarrow>
               Load X fs fname = Inl (UnsupportedOnDiskFormat (Version cf))) \<and>
            (Version cf = CurrentVersion X \<and>
             (\<exists>f \<in> set (FeatureFlags cf). \<not> isFeatureFlagKnown cf f) \<longrightarrow>
               (\<exists>f \<in> set (FeatureFlags cf). \<not> isFeatureFlagKnown cf f \<and>
                  Load X fs fname = Inl (UnsupportedFeatureFlag f))) \<and>
            (Version cf = CurrentVersion X \<and>
             (\<forall>f \<in> set (FeatureFlags cf). isFeatureFlagKnown cf f) \<and>
             (\<exists>i \<in> set (if IsFeatureFlagSet cf FlagPlaintextNames
                          then requiredFlagsPlaintextNames else requiredFlagsNormal).
                \<not> IsFeatureFlagSet cf i) \<longrightarrow>
               Load X fs fname = Inl (ExitErr ''Deprecated filesystem'' 16)) \<and>
            (Version cf = CurrentVersion X \<and>
             (\<forall>f \<in> set (FeatureFlags cf). isFeatureFlagKnown cf f) \<and>
             \<not> IsFeatureFlagSet cf FlagEMENames \<and> \<not> IsFeatureFlagSet cf FlagPlaintextNames \<longrightarrow>
               Load X fs fname = Inl (ExitErr ''Deprecated filesystem'' 16)))"
proof (intro conjI impI)
  assume "js = []"
  with read show "Load X fs fname = Inl ConfigFileEmpty"
    by (simp add: Load_def ioutil_ReadFile_def)
next
  assume a: "js \<noteq> [] \<and> Unmarshal X js (zeroConfFile\<lparr>filename := fname\<rparr>) = Inr cf"
    and v: "Version cf \<noteq> CurrentVersion X"
  with read show "Load X fs fname = Inl (UnsupportedOnDiskFormat (Version cf))"
    by (simp add: Load_def ioutil_ReadFile_def)
next
  assume a: "js \<noteq> [] \<and> Unmarshal X js (zeroConfFile\<lparr>filename := fname\<rparr>) = Inr cf"
    and b: "Version cf = CurrentVersion X \<and> (\<exists>f \<in> set (FeatureFlags cf). \<not> isFeatureFlagKnown cf f)"
  from b firstUnknownFlag_Some[of "FeatureFlags cf" cf] obtain f where
    f: "f \<in> set (FeatureFlags cf)" "\<not> isFeatureFlagKnown cf f"
       "firstUnknownFlag cf (FeatureFlags cf) = Some f" by blast
  with read a b have "Load X fs fname = Inl (UnsupportedFeatureFlag f)"
    by (simp add: Load_def ioutil_ReadFile_def)
  with f show "\<exists>f \<in> set (FeatureFlags cf). \<not> isFeatureFlagKnown cf f \<and>
                  Load X fs fname = Inl (UnsupportedFeatureFlag f)" by blast
next
  assume a: "js \<noteq> [] \<and> Unmarshal X js (zeroConfFile\<lparr>filename := fname\<rparr>) = Inr cf"
    and b: "Version cf = CurrentVersion X \<and>
             (\<forall>f \<in> set (FeatureFlags cf). isFeatureFlagKnown cf f) \<and>
             (\<exists>i \<in> set (if IsFeatureFlagSet cf FlagPlaintextNames
                          then requiredFlagsPlaintextNames else requiredFlagsNormal).
                \<not> IsFeatureFlagSet cf i)"
  then have n: "firstUnknownFlag cf (FeatureFlags cf) = None"
    by (intro firstUnknownFlag_None) simp
  from read a b n show "Load X fs fname = Inl (ExitErr ''Deprecated filesystem'' 16)"
    by (simp add: Load_def ioutil_ReadFile_def checkRequiredFlags_iff DeprecatedFS_def Let_def)
next
  assume a: "js \<noteq> [] \<and> Unmarshal X js (zeroConfFile\<lparr>filename := fname\<rparr>) = Inr cf"
    and b: "Version cf = CurrentVersion X \<and>
             (\<forall>f \<in> set (FeatureFlags cf). isFeatureFlagKnown cf f) \<and>
             \<not> IsFeatureFlagSet cf FlagEMENames \<and> \<not> IsFeatureFlagSet cf FlagPlaintextNames"
  then have n: "firstUnknownFlag cf (FeatureFlags cf) = None"
    by (intro firstUnknownFlag_None) simp
  from b have "\<exists>i \<in> set requiredFlagsNormal. \<not> IsFeatureFlagSet cf i"
    by (auto simp: requiredFlagsNormal_def)
  with read a b n show "Load X fs fname = Inl (ExitErr ''Deprecated filesystem'' 16)"
    by (simp add: Load_def ioutil_ReadFile_def checkRequiredFlags_iff DeprecatedFS_def Let_def)
qed

theorem Load_rejects_witness:
  "files \<lparr>files = [''gocryptfs.conf'' \<mapsto> ''GCMIV128,HKDF,DirIV'', ''empty.conf'' \<mapsto> '''']\<rparr>
     ''gocryptfs.conf'' = Some ''GCMIV128,HKDF,DirIV'' \<and>
   Unmarshal exampleX ''GCMIV128,HKDF,DirIV'' (zeroConfFile\<lparr>filename := ''gocryptfs.conf''\<rparr>) =
     Inr (zeroConfFile\<lparr>filename := ''gocryptfs.conf'', Version := 2,
                      FeatureFlags := [''GCMIV128'', ''HKDF'', ''DirIV'']\<rparr>) \<and>
   Version (zeroConfFile\<lparr>filename := ''gocryptfs.conf'', Version := 2,
                      FeatureFlags := [''GCMIV128'', ''HKDF'', ''DirIV'']\<rparr>) = CurrentVersion exampleX \<and>
   list_all (isFeatureFlagKnown zeroConfFile) [''GCMIV128'', ''HKDF'', ''DirIV''] \<and>
   \<not> IsFeatureFlagSet
       (zeroConfFile\<lparr>filename := ''gocryptfs.conf'', Version := 2,
                     FeatureFlags := [''GCMIV128'', ''HKDF'', ''DirIV'']\<rparr>) FlagEMENames \<and>
   \<not> IsFeatureFlagSet
       (zeroConfFile\<lparr>filename := ''gocryptfs.conf'', Version := 2,
                     FeatureFlags := [''GCMIV128'', ''HKDF'', ''DirIV'']\<rparr>) FlagPlaintextNames \<and>
   Load exampleX
     \<lparr>files = [''gocryptfs.conf'' \<mapsto> ''GCMIV128,HKDF,DirIV'', ''empty.conf'' \<mapsto> '''']\<rparr>
     ''gocryptfs.conf'' = Inl (ExitErr ''Deprecated filesystem'' 16) \<and>
   Load exampleX
     \<lparr>files = [''gocryptfs.conf'' \<mapsto> ''GCMIV128,HKDF,DirIV'', ''empty.conf'' \<mapsto> '''']\<rparr>
     ''empty.conf'' = Inl ConfigFileEmpty"
proof -
  let ?fs = "\<lparr>files = [''gocryptfs.conf'' \<mapsto> ''GCMIV128,HKDF,DirIV'', ''empty.conf'' \<mapsto> '''']\<rparr>"
  let ?cf = "zeroConfFile\<lparr>filename := ''gocryptfs.conf'', Version := 2,
                      FeatureFlags := [''GCMIV128'', ''HKDF'', ''DirIV'']\<rparr>"
  have r1: "files ?fs ''gocryptfs.conf'' = Some ''GCMIV128,HKDF,DirIV''" by simp
  have r2: "files ?fs ''empty.conf'' = Some ''''" by simp
  have u: "Unmarshal exampleX ''GCMIV128,HKDF,DirIV'' (zeroConfFile\<lparr>filename := ''gocryptfs.conf''\<rparr>) =
             Inr ?cf"
    by (simp add: exampleX_def zeroConfFile_def)
  have pre: "''GCMIV128,HKDF,DirIV'' \<noteq> [] \<and>
             Unmarshal exampleX ''GCMIV128,HKDF,DirIV'' (zeroConfFile\<lparr>filename := ''gocryptfs.conf''\<rparr>) =
               Inr ?cf"
    using u by simp
  have cond: "Version ?cf = CurrentVersion exampleX \<and>
             (\<forall>f \<in> set (FeatureFlags ?cf). isFeatureFlagKnown ?cf f) \<and>
             \<not> IsFeatureFlagSet ?cf FlagEMENames \<and> \<not> IsFeatureFlagSet ?cf FlagPlaintextNames"
    by (simp add: exampleX_def isFeatureFlagKnown_def allFlags_def IsFeatureFlagSet_def)
  have d: "Load exampleX ?fs ''gocryptfs.conf'' = Inl (ExitErr ''Deprecated filesystem'' 16)"
    by (rule Load_rejects [OF r1, of exampleX ?cf, THEN conjunct2, rule_format,
          THEN conjunct2, THEN conjunct2, THEN conjunct2, rule_format, OF pre cond])
  have e: "Load exampleX ?fs ''empty.conf'' = Inl ConfigFileEmpty"
    by (rule Load_rejects [OF r2, of exampleX ?cf, THEN conjunct1, rule_format]) simp
  have k: "list_all (isFeatureFlagKnown zeroConfFile) [''GCMIV128'', ''HKDF'', ''DirIV'']"
    by (simp add: isFeatureFlagKnown_def allFlags_def)
  from cond have c1: "Version ?cf = CurrentVersion exampleX"
    and c2: "\<not> IsFeatureFlagSet ?cf FlagEMENames"
    and c3: "\<not> IsFeatureFlagSet ?cf FlagPlaintextNames" by blast+
  from r1 u c1 k c2 c3 d e show ?thesis by (intro conjI)
qed

text \<open>
  C3 as stated does not hold for every configuration that lacks EMENames and carries
  DirIV: with PlaintextNames set, EMENames is not required, and \<^verbatim>\<open>Load\<close> returns
  the configuration.
\<close>

theorem Load_accepts_plaintextnames_without_EMENames:
  "\<not> IsFeatureFlagSet
       (zeroConfFile\<lparr>filename := ''gocryptfs.conf'', Version := 2,
                     FeatureFlags := [''GCMIV128'', ''HKDF'', ''PlaintextNames'', ''DirIV'']\<rparr>)
       FlagEMENames \<and>
   IsFeatureFlagSet
       (zeroConfFile\<lparr>filename := ''gocryptfs.conf'', Version := 2,
                     FeatureFlags := [''GCMIV128'', ''HKDF'', ''PlaintextNames'', ''DirIV'']\<rparr>)
       FlagDirIV \<and>
   Load exampleX \<lparr>files = [''gocryptfs.conf'' \<mapsto> ''GCMIV128,HKDF,PlaintextNames,DirIV'']\<rparr>
        ''gocryptfs.conf'' =
     Inr (zeroConfFile\<lparr>filename := ''gocryptfs.conf'', Version := 2,
                      FeatureFlags := [''GCMIV128'', ''HKDF'', ''PlaintextNames'', ''DirIV'']\<rparr>)"
  by (simp add: Load_def ioutil_ReadFile_def exampleX_def zeroConfFile_def IsFeatureFlagSet_def
      isFeatureFlagKnown_def allFlags_def requiredFlagsPlaintextNames_def Let_def)

subsection \<open>Create and WriteFile\<close>

text \<open>
  C7. When \<^verbatim>\<open>Create\<close> returns without error, the file holds the JSON of a
  configuration that carries GCMIV128 and HKDF and exactly one of PlaintextNames and
  EMENames: with \<^verbatim>\<open>plaintextNames\<close> it carries PlaintextNames and none of DirIV,
  EMENames, LongNames, Raw64; otherwise it carries DirIV, EMENames, LongNames and Raw64
  and not PlaintextNames.
\<close>

theorem Create_feature_flags:
  assumes "Create X io rnd fname password plaintextNames logN creator av dv cred hsalt fs =
             Returned None fs'"
  shows "\<exists>cf js. MarshalIndent X cf = Inr js \<and> files fs' fname = Some (js @ [CHR 0x0A]) \<and>
           IsFeatureFlagSet cf FlagGCMIV128 \<and> IsFeatureFlagSet cf FlagHKDF \<and>
           (IsFeatureFlagSet cf FlagPlaintextNames \<longleftrightarrow> \<not> IsFeatureFlagSet cf FlagEMENames) \<and>
           (if plaintextNames
            then IsFeatureFlagSet cf FlagPlaintextNames \<and> \<not> IsFeatureFlagSet cf FlagDirIV \<and>
                 \<not> IsFeatureFlagSet cf FlagLongNames \<and> \<not> IsFeatureFlagSet cf FlagRaw64
            else IsFeatureFlagSet cf FlagDirIV \<and> IsFeatureFlagSet cf FlagEMENames \<and>
                 IsFeatureFlagSet cf FlagLongNames \<and> IsFeatureFlagSet cf FlagRaw64)"
proof -
  from assms obtain cf where
    cf: "Create_conf X rnd fname password plaintextNames logN creator av dv cred hsalt = Some cf"
    and w: "WriteFile X io cf fs = (None, fs')"
    by (auto simp: Create_def split: option.splits prod.splits)
  have fn: "filename cf = fname"
    using cf by (auto simp: Create_conf_def Let_def EncryptKey_def split: option.splits if_splits)
  from WriteFile_success[OF w] fn obtain js where
    js: "MarshalIndent X cf = Inr js" "files fs' fname = Some (js @ [CHR 0x0A])" by auto
  have flags: "IsFeatureFlagSet cf FlagGCMIV128 \<and> IsFeatureFlagSet cf FlagHKDF \<and>
           (IsFeatureFlagSet cf FlagPlaintextNames \<longleftrightarrow> \<not> IsFeatureFlagSet cf FlagEMENames) \<and>
           (if plaintextNames
            then IsFeatureFlagSet cf FlagPlaintextNames \<and> \<not> IsFeatureFlagSet cf FlagDirIV \<and>
                 \<not> IsFeatureFlagSet cf FlagLongNames \<and> \<not> IsFeatureFlagSet cf FlagRaw64
            else IsFeatureFlagSet cf FlagDirIV \<and> IsFeatureFlagSet cf FlagEMENames \<and>
                 IsFeatureFlagSet cf FlagLongNames \<and> IsFeatureFlagSet cf FlagRaw64)"
    by (simp add: IsFeatureFlagSet_def Create_conf_FeatureFlags[OF cf])
  from js flags show ?thesis by blast
qed

theorem Create_feature_flags_witness:
  "\<exists>fs'. Create exampleX noFaults exampleRandomness ''gocryptfs.conf'' ''test'' False 10
          ''gocryptfs example'' False False [] [] \<lparr>files = Map.empty\<rparr> = Returned None fs' \<and>
     (\<exists>cf js. MarshalIndent exampleX cf = Inr js \<and>
        files fs' ''gocryptfs.conf'' = Some (js @ [CHR 0x0A]) \<and>
        IsFeatureFlagSet cf FlagGCMIV128 \<and> IsFeatureFlagSet cf FlagHKDF \<and>
        IsFeatureFlagSet cf FlagEMENames \<and> \<not> IsFeatureFlagSet cf FlagPlaintextNames)"
proof -
  from example_Create_returns obtain fs' where
    c: "Create exampleX noFaults exampleRandomness ''gocryptfs.conf'' ''test'' False 10
          ''gocryptfs example'' False False [] [] \<lparr>files = Map.empty\<rparr> = Returned None fs'"
    by blast
  from Create_feature_flags [OF c] c show ?thesis
    by (intro exI[of _ fs']) auto
qed

text \<open>
  C9. \<^verbatim>\<open>WriteFile\<close> opens \<^verbatim>\<open><filename>.tmp\<close> with \<^verbatim>\<open>O_EXCL\<close>: when that
  file already exists, \<^verbatim>\<open>WriteFile\<close> returns the error of the open and the file
  system is as before, so the stale temporary file is not overwritten and the original
  configuration file is unchanged.
\<close>

theorem WriteFile_stale_tmp:
  assumes "files fs (filename cf @ ''.tmp'') = Some stale"
  shows "WriteFile X io cf fs = (Some (OSErr EEXIST), fs)"
  using assms by (simp add: WriteFile_def os_OpenFile_excl_def)

theorem WriteFile_stale_tmp_witness:
  "files \<lparr>files = [''gocryptfs.conf'' \<mapsto> ''old'', ''gocryptfs.conf.tmp'' \<mapsto> ''stale'']\<rparr>
     (filename (zeroConfFile\<lparr>filename := ''gocryptfs.conf''\<rparr>) @ ''.tmp'') = Some ''stale'' \<and>
   WriteFile exampleX noFaults (zeroConfFile\<lparr>filename := ''gocryptfs.conf''\<rparr>)
     \<lparr>files = [''gocryptfs.conf'' \<mapsto> ''old'', ''gocryptfs.conf.tmp'' \<mapsto> ''stale'']\<rparr> =
     (Some (OSErr EEXIST),
      \<lparr>files = [''gocryptfs.conf'' \<mapsto> ''old'', ''gocryptfs.conf.tmp'' \<mapsto> ''stale'']\<rparr>)"
proof -
  have h: "files \<lparr>files = [''gocryptfs.conf'' \<mapsto> ''old'', ''gocryptfs.conf.tmp'' \<mapsto> ''stale'']\<rparr>
     (filename (zeroConfFile\<lparr>filename := ''gocryptfs.conf''\<rparr>) @ ''.tmp'') = Some ''stale''"
    by (simp add: zeroConfFile_def)
  from h WriteFile_stale_tmp [OF h, of exampleX noFaults] show ?thesis by simp
qed

end
